theory Spec2Isabelle
  imports Main "HOL-Library.Sublist"
begin

text \<open>
  A model of the two PowerShell scripts that build and start CodexBar on Windows:
  \<^verbatim>\<open>dev.ps1\<close> (path setup, prerequisite check, build, lookup of the binary, launch) and
  \<^verbatim>\<open>scripts/setup-windows.ps1\<close> (installation of Rust and MinGW-w64, user path). A script is
  a function from the state of the session to an outcome and a new state. What the
  scripts ask of the outside world (the file system, command lookup, native programs,
  the network) is a parameter of the model, so every result holds for any behaviour of
  the outside world.
\<close>

section \<open>PowerShell wildcard matching (the \<^verbatim>\<open>-like\<close> operator)\<close>

text \<open>
  Both scripts decide whether a directory is already on a search path with
  \<^verbatim>\<open>$path -notlike "*$dir*"\<close>. The right-hand side is a wildcard pattern into which the
  directory is interpolated unescaped, so the operator is modelled in full: \<^verbatim>\<open>*\<close> matches
  any run of characters, \<^verbatim>\<open>?\<close> one character, \<^verbatim>\<open>[...]\<close> one character of a set
  (with ranges), a backtick escapes the next character, and the comparison ignores case.
  A pattern with an unterminated bracket or a descending range raises
  \<^verbatim>\<open>WildcardPatternException\<close>, which is the value \<open>None\<close> here.

  The operator ignores case by sending each character of the pattern and of the string
  through the lower-casing of the session's current culture, for every letter and not
  only for those of ASCII. That function is a parameter \<open>lc\<close> of the matcher and of
  everything built on it. A character of the model is one character of a PowerShell
  string; the model has 256 of them (the code points 0 to 255).
\<close>

datatype wc_item = BChar char | BRange char char

datatype wc_elem = WLit char | WAny | WStar | WBracket "wc_item list"

text \<open>
  The contents of a bracket expression arrive as characters paired with a flag that says
  whether the character is an unescaped \<^verbatim>\<open>-\<close>. Three characters with such a \<^verbatim>\<open>-\<close> in the
  middle form a range; a range whose lower bound exceeds its upper bound is an error.
\<close>

fun bracket_items :: "(char \<times> bool) list \<Rightarrow> wc_item list option" where
  "bracket_items ((lo, f1) # (m, True) # (hi, f3) # rest) =
     (if (of_char hi :: nat) < of_char lo then None
      else map_option ((#) (BRange lo hi)) (bracket_items rest))"
| "bracket_items ((c, f) # rest) = map_option ((#) (BChar c)) (bracket_items rest)"
| "bracket_items [] = Some []"

text \<open>
  The pattern parser is a single left-to-right pass with three flags: the previous
  character was an escaping backtick, the previous character opened a bracket expression,
  and (the option) the bracket contents collected so far when inside one. The result also
  reports whether the pattern ended on an escaping backtick.
\<close>

fun wc_parse ::
  "bool \<Rightarrow> bool \<Rightarrow> (char \<times> bool) list option \<Rightarrow> wc_elem list \<Rightarrow> string
     \<Rightarrow> (wc_elem list \<times> bool) option" where
  "wc_parse esc started inside acc [] =
     (case inside of Some cont \<Rightarrow> None | None \<Rightarrow> Some (acc, esc))"
| "wc_parse esc started (Some cont) acc (c # cs) =
     (if c = CHR '']'' \<and> \<not> started \<and> \<not> esc then
        (case bracket_items cont of
           None \<Rightarrow> None
         | Some items \<Rightarrow> wc_parse False False None (acc @ [WBracket items]) cs)
      else if c \<noteq> CHR 0x60 \<or> esc then
        wc_parse False False (Some (cont @ [(c, c = CHR ''-'' \<and> \<not> esc)])) acc cs
      else wc_parse True False (Some cont) acc cs)"
| "wc_parse esc started None acc (c # cs) =
     (if c = CHR ''*'' \<and> \<not> esc then wc_parse False False None (acc @ [WStar]) cs
      else if c = CHR ''?'' \<and> \<not> esc then wc_parse False False None (acc @ [WAny]) cs
      else if c = CHR ''['' \<and> \<not> esc then wc_parse False True (Some []) acc cs
      else if c \<noteq> CHR 0x60 \<or> esc then wc_parse False False None (acc @ [WLit c]) cs
      else wc_parse True False None acc cs)"

definition chars_between :: "char \<Rightarrow> char \<Rightarrow> char list" where
  "chars_between lo hi = map char_of [of_char lo ..< Suc (of_char hi)]"

fun item_match :: "(char \<Rightarrow> char) \<Rightarrow> wc_item \<Rightarrow> char \<Rightarrow> bool" where
  "item_match lc (BChar c) x = (lc c = lc x)"
| "item_match lc (BRange lo hi) x =
     (let l = lc x; cs = chars_between lo hi in l \<in> set cs \<or> l \<in> set (map lc cs))"

fun elem_match :: "(char \<Rightarrow> char) \<Rightarrow> wc_elem \<Rightarrow> char \<Rightarrow> bool" where
  "elem_match lc (WLit c) x = (lc c = lc x)"
| "elem_match lc WAny x = True"
| "elem_match lc (WBracket items) x = list_ex (\<lambda>i. item_match lc i x) items"
| "elem_match lc WStar x = True"

fun wc_match :: "(char \<Rightarrow> char) \<Rightarrow> wc_elem list \<Rightarrow> string \<Rightarrow> bool" where
  "wc_match lc [] s = (s = [])"
| "wc_match lc (WStar # ps) [] = wc_match lc ps []"
| "wc_match lc (WStar # ps) (x # xs) = (wc_match lc ps (x # xs) \<or> wc_match lc (WStar # ps) xs)"
| "wc_match lc (e # ps) [] = False"
| "wc_match lc (e # ps) (x # xs) = (elem_match lc e x \<and> wc_match lc ps xs)"

definition ps_like :: "(char \<Rightarrow> char) \<Rightarrow> string \<Rightarrow> string \<Rightarrow> bool option" where
  "ps_like lc s pat =
     (case wc_parse False False None [] pat of
        None \<Rightarrow> None
      | Some (elems, esc) \<Rightarrow>
          Some (wc_match lc
                  (if esc \<and> pat \<noteq> [CHR 0x60] then elems @ [WLit (last pat)] else elems) s))"

definition ps_notlike :: "(char \<Rightarrow> char) \<Rightarrow> string \<Rightarrow> string \<Rightarrow> bool option" where
  "ps_notlike lc s pat = map_option Not (ps_like lc s pat)"

text \<open>
  Containment of one string in another as a contiguous run of characters, ignoring case
  the way the culture does.
\<close>

definition contains_ci :: "(char \<Rightarrow> char) \<Rightarrow> string \<Rightarrow> string \<Rightarrow> bool" where
  "contains_ci lc d s = sublist (map lc d) (map lc s)"

text \<open>
  A directory name is free of wildcard syntax when it has none of the characters that the
  pattern parser treats specially outside a bracket expression.
\<close>

definition wild_free :: "string \<Rightarrow> bool" where
  "wild_free d = list_all (\<lambda>c. c \<noteq> CHR ''*'' \<and> c \<noteq> CHR ''?'' \<and> c \<noteq> CHR ''['' \<and> c \<noteq> CHR 0x60) d"

section \<open>State of the machine and of the PowerShell session\<close>

text \<open>
  A backslash cannot be written inside a string literal, so paths are spelled with \<open>bsl\<close>.
\<close>

abbreviation bsl :: string where
  "bsl \<equiv> [CHR 0x5C]"

text \<open>
  The machine is what outlives the session: which paths \<^verbatim>\<open>Test-Path\<close> finds, and the user's
  persisted \<^verbatim>\<open>PATH\<close> (\<open>None\<close> when the variable is not set, read as \<^verbatim>\<open>$null\<close>).
\<close>

record machine =
  files :: "string \<Rightarrow> bool"
  user_path :: "string option"

definition put_file :: "string \<Rightarrow> machine \<Rightarrow> machine" where
  "put_file p m = m\<lparr>files := (files m)(p := True)\<rparr>"

definition drop_file :: "string \<Rightarrow> machine \<Rightarrow> machine" where
  "drop_file p m = m\<lparr>files := (files m)(p := False)\<rparr>"

datatype event =
    EvSetup string
  | EvBuild string bool
  | EvResolve "string list"
  | EvLaunch string "string list"
  | EvDownload string string
  | EvRun string "string list"
  | EvExpand string string
  | EvRemove string

text \<open>
  The session holds the process environment (\<^verbatim>\<open>$env:PATH\<close>, \<^verbatim>\<open>$env:USERPROFILE\<close>,
  \<^verbatim>\<open>$env:TEMP\<close>), the lower-casing of its current culture, the current location and the
  location stack, \<^verbatim>\<open>$LASTEXITCODE\<close>, the lines written with \<^verbatim>\<open>Write-Host\<close>, and a trace
  of the external actions taken.
\<close>

record session =
  env_path :: string
  to_lower :: "char \<Rightarrow> char"
  userprofile :: string
  temp_dir :: string
  location :: string
  loc_stack :: "string list"
  last_exit :: int
  console :: "string list"
  trace :: "event list"
  mach :: machine

text \<open>
  A statement either lets the script continue, ends it with \<^verbatim>\<open>exit n\<close>, or raises a
  terminating error (every error is terminating under \<^verbatim>\<open>$ErrorActionPreference = 'Stop'\<close>).
\<close>

datatype status = Continue | Exit int | Throw

text \<open>
  What the scripts cannot decide themselves is a parameter: whether \<^verbatim>\<open>Get-Command\<close> finds
  a name (given the session path and the machine), what a native program does when started
  (its exit code, its output lines and its effect on the machine; \<open>None\<close> when it cannot be
  started), whether a web request succeeds, what extracting an archive leaves behind
  (\<open>None\<close> when extraction fails), whether the file system lets a path be deleted, and
  whether the persisted user environment accepts a new value.
\<close>

record externals =
  get_command :: "string \<Rightarrow> string \<Rightarrow> machine \<Rightarrow> bool"
  native :: "string \<Rightarrow> string list \<Rightarrow> string \<Rightarrow> string \<Rightarrow> machine
               \<Rightarrow> (int \<times> string list \<times> machine) option"
  web_request :: "string \<Rightarrow> machine \<Rightarrow> bool"
  expand_archive :: "string \<Rightarrow> string \<Rightarrow> machine \<Rightarrow> machine option"
  remove_item :: "string \<Rightarrow> machine \<Rightarrow> bool"
  set_environment :: "string \<Rightarrow> machine \<Rightarrow> bool"

definition andthen :: "status \<times> session \<Rightarrow> (session \<Rightarrow> status \<times> session) \<Rightarrow> status \<times> session" where
  "andthen r f = (case r of (Continue, s) \<Rightarrow> f s | (Exit n, s) \<Rightarrow> (Exit n, s) | (Throw, s) \<Rightarrow> (Throw, s))"

fun foreach :: "'a list \<Rightarrow> ('a \<Rightarrow> session \<Rightarrow> status \<times> session) \<Rightarrow> session \<Rightarrow> status \<times> session" where
  "foreach [] body s = (Continue, s)"
| "foreach (x # xs) body s = andthen (body x s) (foreach xs body)"

definition try_finally ::
  "(session \<Rightarrow> status \<times> session) \<Rightarrow> (session \<Rightarrow> session) \<Rightarrow> session \<Rightarrow> status \<times> session" where
  "try_finally body fin s = (case body s of (st, s') \<Rightarrow> (st, fin s'))"

text \<open>
  Calling a script with \<^verbatim>\<open>&\<close>: an \<^verbatim>\<open>exit n\<close> inside it ends only that script and leaves
  \<open>n\<close> in \<^verbatim>\<open>$LASTEXITCODE\<close>; a terminating error propagates to the caller.
\<close>

definition invoke_script :: "(session \<Rightarrow> status \<times> session) \<Rightarrow> session \<Rightarrow> status \<times> session" where
  "invoke_script script s =
     (case script s of
        (Continue, s') \<Rightarrow> (Continue, s')
      | (Exit n, s') \<Rightarrow> (Continue, s'\<lparr>last_exit := n\<rparr>)
      | (Throw, s') \<Rightarrow> (Throw, s'))"

definition Write_Host :: "string \<Rightarrow> session \<Rightarrow> session" where
  "Write_Host msg s = s\<lparr>console := console s @ [msg]\<rparr>"

definition log_event :: "event \<Rightarrow> session \<Rightarrow> session" where
  "log_event e s = s\<lparr>trace := trace s @ [e]\<rparr>"

definition Test_Path :: "string \<Rightarrow> session \<Rightarrow> bool" where
  "Test_Path p s = files (mach s) p"

definition Get_Command :: "externals \<Rightarrow> string \<Rightarrow> session \<Rightarrow> bool" where
  "Get_Command ext name s = get_command ext name (env_path s) (mach s)"

text \<open>
  \<^verbatim>\<open>Join-Path\<close> puts one separator between parent and child.
\<close>

definition Join_Path :: "string \<Rightarrow> string \<Rightarrow> string" where
  "Join_Path parent child =
     (if parent \<noteq> [] \<and> (last parent = CHR 0x5C \<or> last parent = CHR ''/'') then parent @ child
      else parent @ bsl @ child)"

text \<open>
  Starting a native program: it runs in the current location with the session path, sets
  \<^verbatim>\<open>$LASTEXITCODE\<close> and may change the machine; a program that cannot be started is a
  terminating error. The output lines are returned to the caller.
\<close>

definition run_native ::
  "externals \<Rightarrow> string \<Rightarrow> string list \<Rightarrow> session \<Rightarrow> (status \<times> session) \<times> string list" where
  "run_native ext cmd args s =
     (case native ext cmd args (location s) (env_path s) (mach s) of
        None \<Rightarrow> ((Throw, s), [])
      | Some (code, out, m) \<Rightarrow> ((Continue, s\<lparr>last_exit := code, mach := m\<rparr>), out))"

section \<open>Path registry\<close>

text \<open>
  \<^verbatim>\<open>Add-ToUserPath\<close> of \<^verbatim>\<open>scripts/setup-windows.ps1\<close>: the persisted user path gets the
  directory in front unless the wildcard test finds it, and the script says which of the
  two it did; then the same test and addition for the session path. Writing the persisted
  variable is a terminating error when the user environment refuses the value.
\<close>

definition current_user_path :: "session \<Rightarrow> string" where
  "current_user_path s = (case user_path (mach s) of None \<Rightarrow> [] | Some c \<Rightarrow> c)"

definition session_add :: "string \<Rightarrow> session \<Rightarrow> status \<times> session" where
  "session_add dir s =
     (case ps_notlike (to_lower s) (env_path s) (''*'' @ dir @ ''*'') of
        None \<Rightarrow> (Throw, s)
      | Some True \<Rightarrow> (Continue, s\<lparr>env_path := dir @ '';'' @ env_path s\<rparr>)
      | Some False \<Rightarrow> (Continue, s))"

definition user_add :: "externals \<Rightarrow> string \<Rightarrow> session \<Rightarrow> status \<times> session" where
  "user_add ext dir s =
     (let current = current_user_path s in
      case ps_notlike (to_lower s) current (''*'' @ dir @ ''*'') of
        None \<Rightarrow> (Throw, s)
      | Some True \<Rightarrow>
          if set_environment ext (dir @ '';'' @ current) (mach s)
          then (Continue,
                Write_Host (''   Added '' @ dir @ '' to user PATH (restart terminal to take effect)'')
                  (s\<lparr>mach := (mach s)\<lparr>user_path := Some (dir @ '';'' @ current)\<rparr>\<rparr>))
          else (Throw, s)
      | Some False \<Rightarrow> (Continue, Write_Host (''   '' @ dir @ '' already in user PATH'') s))"

definition Add_ToUserPath :: "externals \<Rightarrow> string \<Rightarrow> session \<Rightarrow> status \<times> session" where
  "Add_ToUserPath ext dir s = andthen (user_add ext dir s) (session_add dir)"

text \<open>
  The start of \<^verbatim>\<open>dev.ps1\<close>: each known directory that exists is put in front of the session
  path unless the wildcard test finds it there. \<^verbatim>\<open>-and\<close> does not evaluate its right
  operand when the left one is false.
\<close>

definition knownPaths :: "session \<Rightarrow> string list" where
  "knownPaths s = [userprofile s @ bsl @ ''.cargo'' @ bsl @ ''bin'', ''C:'' @ bsl @ ''mingw64'' @ bsl @ ''bin'']"

definition ensure_known_path :: "string \<Rightarrow> session \<Rightarrow> status \<times> session" where
  "ensure_known_path p s = (if Test_Path p s then session_add p s else (Continue, s))"

definition session_path_setup :: "session \<Rightarrow> status \<times> session" where
  "session_path_setup s = foreach (knownPaths s) ensure_known_path s"

text \<open>
  A search path read as a list: its entries are the pieces between semicolons.
\<close>

fun path_entries :: "string \<Rightarrow> string list" where
  "path_entries [] = [[]]"
| "path_entries (c # cs) =
     (if c = CHR '';'' then [] # path_entries cs
      else (case path_entries cs of e # es \<Rightarrow> (c # e) # es | [] \<Rightarrow> [[c]]))"

definition occurrences :: "string \<Rightarrow> string \<Rightarrow> nat" where
  "occurrences d p = count_list (path_entries p) d"

section \<open>The setup script \<^verbatim>\<open>scripts/setup-windows.ps1\<close>\<close>

text \<open>
  The script's state changes and external actions are modelled; of what it prints, only
  the two messages of \<^verbatim>\<open>Add-ToUserPath\<close>.
\<close>

definition MinGWDir :: string where
  "MinGWDir = ''C:'' @ bsl @ ''mingw64''"

definition MinGWBin :: string where
  "MinGWBin = MinGWDir @ bsl @ ''bin''"

definition CargoBin :: "session \<Rightarrow> string" where
  "CargoBin s = userprofile s @ bsl @ ''.cargo'' @ bsl @ ''bin''"

definition WinLibsVersion :: string where
  "WinLibsVersion = ''15.2.0posix-13.0.0-ucrt-r6''"

definition WinLibsZip :: string where
  "WinLibsZip = ''winlibs-x86_64-posix-seh-gcc-15.2.0-mingw-w64ucrt-13.0.0-r6.zip''"

definition WinLibsUrl :: string where
  "WinLibsUrl = ''https://github.com/brechtsanders/winlibs_mingw/releases/download/''
                  @ WinLibsVersion @ ''/'' @ WinLibsZip"

definition Invoke_WebRequest :: "externals \<Rightarrow> string \<Rightarrow> string \<Rightarrow> session \<Rightarrow> status \<times> session" where
  "Invoke_WebRequest ext uri outfile s =
     (let s1 = log_event (EvDownload uri outfile) s in
      if web_request ext uri (mach s1)
      then (Continue, s1\<lparr>mach := put_file outfile (mach s1)\<rparr>)
      else (Throw, s1))"

text \<open>
  \<^verbatim>\<open>Remove-Item $p -ErrorAction SilentlyContinue\<close>: the path is deleted when it is there and
  the file system lets it go. A path that is not there and a deletion that is refused are
  both errors that the script does not see: the machine stays as it is and the script
  goes on.
\<close>

definition Remove_Item :: "externals \<Rightarrow> string \<Rightarrow> session \<Rightarrow> session" where
  "Remove_Item ext p s =
     (let s1 = log_event (EvRemove p) s in
      if files (mach s1) p \<and> remove_item ext p (mach s1)
      then s1\<lparr>mach := drop_file p (mach s1)\<rparr>
      else s1)"

definition Expand_Archive :: "externals \<Rightarrow> string \<Rightarrow> string \<Rightarrow> session \<Rightarrow> status \<times> session" where
  "Expand_Archive ext archive dest s =
     (let s1 = log_event (EvExpand archive dest) s in
      case expand_archive ext archive dest (mach s1) of
        None \<Rightarrow> (Throw, s1)
      | Some m \<Rightarrow> (Continue, s1\<lparr>mach := m\<rparr>))"

definition run_logged :: "externals \<Rightarrow> string \<Rightarrow> string list \<Rightarrow> session \<Rightarrow> status \<times> session" where
  "run_logged ext cmd args s = fst (run_native ext cmd args (log_event (EvRun cmd args) s))"

definition install_rust :: "externals \<Rightarrow> session \<Rightarrow> status \<times> session" where
  "install_rust ext s =
     (if Get_Command ext ''rustup'' s then run_logged ext ''rustc'' [''--version''] s
      else
        (let rustupInit = temp_dir s @ bsl @ ''rustup-init.exe'' in
         andthen (Invoke_WebRequest ext ''https://win.rustup.rs/x86_64'' rustupInit s) (\<lambda>s1.
         andthen (run_logged ext rustupInit
                    [''-y'', ''--default-toolchain'', ''stable'', ''--default-host'', ''x86_64-pc-windows-gnu''] s1) (\<lambda>s2.
         Add_ToUserPath ext (CargoBin s2) (Remove_Item ext rustupInit s2)))))"

definition ensure_gnu_target :: "externals \<Rightarrow> session \<Rightarrow> status \<times> session" where
  "ensure_gnu_target ext s =
     (let s0 = log_event (EvRun ''rustup'' [''target'', ''list'', ''--installed'']) s in
      case run_native ext ''rustup'' [''target'', ''list'', ''--installed''] s0 of
        ((Continue, s1), targets) \<Rightarrow>
          if list_ex (contains_ci (to_lower s1) ''x86_64-pc-windows-gnu'') targets then (Continue, s1)
          else run_logged ext ''rustup'' [''target'', ''add'', ''x86_64-pc-windows-gnu''] s1
      | (r, targets) \<Rightarrow> r)"

definition install_mingw :: "externals \<Rightarrow> session \<Rightarrow> status \<times> session" where
  "install_mingw ext s =
     (if Get_Command ext ''dlltool'' s then (Continue, s)
      else
        andthen
          (if Test_Path (MinGWBin @ bsl @ ''dlltool.exe'') s then (Continue, s)
           else
             (let zipPath = temp_dir s @ bsl @ WinLibsZip in
              andthen
                (if \<not> Test_Path zipPath s then Invoke_WebRequest ext WinLibsUrl zipPath s
                 else (Continue, s)) (\<lambda>s1.
              andthen (Expand_Archive ext zipPath (''C:'' @ bsl) s1) (\<lambda>s2.
              (Continue, Remove_Item ext zipPath s2)))))
          (Add_ToUserPath ext MinGWBin))"

text \<open>
  The last section runs four version commands inside \<^verbatim>\<open>try\<close>/\<^verbatim>\<open>catch\<close> and only prints:
  a command that cannot be started is caught.
\<close>

fun verify_toolchain :: "externals \<Rightarrow> (string \<times> string list) list \<Rightarrow> session \<Rightarrow> session" where
  "verify_toolchain ext [] s = s"
| "verify_toolchain ext ((cmd, args) # checks) s =
     verify_toolchain ext checks (snd (run_logged ext cmd args s))"

definition checks :: "(string \<times> string list) list" where
  "checks = [(''rustc'', [''--version'']), (''cargo'', [''--version'']),
             (''dlltool'', [''--version'']), (''gcc'', [''--version''])]"

definition setup_windows_ps1 :: "externals \<Rightarrow> session \<Rightarrow> status \<times> session" where
  "setup_windows_ps1 ext s =
     andthen (install_rust ext s) (\<lambda>s1.
     andthen (ensure_gnu_target ext s1) (\<lambda>s2.
     andthen (install_mingw ext s2) (\<lambda>s3.
     (Continue, verify_toolchain ext checks s3))))"

section \<open>The pipeline \<^verbatim>\<open>dev.ps1\<close>\<close>

record run_config =
  release :: bool
  skip_build :: bool
  verbose :: bool

fun join_with :: "string \<Rightarrow> string list \<Rightarrow> string" where
  "join_with sep [] = []"
| "join_with sep [x] = x"
| "join_with sep (x # y # ys) = x @ sep @ join_with sep (y # ys)"

text \<open>
  Prerequisites: both tools are probed; when one is missing the setup script is run (if it
  is there) and both tools are probed again. The setup script is a parameter, so that the
  stage can be studied for any installer.
\<close>

definition announce_missing :: "bool \<Rightarrow> bool \<Rightarrow> session \<Rightarrow> session" where
  "announce_missing hasCargo hasDlltool s =
     (let missing = (if \<not> hasCargo then [''cargo (Rust)''] else [])
                      @ (if \<not> hasDlltool then [''dlltool (MinGW-w64)''] else []);
          s1 = Write_Host (''Missing prerequisites: '' @ join_with '', '' missing) s;
          s2 = Write_Host ''Running setup script...'' s1
      in Write_Host [] s2)"

definition recheck :: "externals \<Rightarrow> session \<Rightarrow> status \<times> session" where
  "recheck ext s =
     (let hasCargo = Get_Command ext ''cargo'' s;
          hasDlltool = Get_Command ext ''dlltool'' s
      in
      if \<not> hasCargo \<or> \<not> hasDlltool then
        (Exit 1,
         Write_Host ''Please restart your terminal and try again.''
           (Write_Host ''ERROR: Prerequisites still missing after setup.''
             (Write_Host [] s)))
      else (Continue, s))"

definition setupScript :: "string \<Rightarrow> string" where
  "setupScript RepoRoot = Join_Path RepoRoot (''scripts'' @ bsl @ ''setup-windows.ps1'')"

definition check_prerequisites ::
  "externals \<Rightarrow> (session \<Rightarrow> status \<times> session) \<Rightarrow> string \<Rightarrow> session \<Rightarrow> status \<times> session" where
  "check_prerequisites ext setup RepoRoot s =
     (let hasCargo = Get_Command ext ''cargo'' s;
          hasDlltool = Get_Command ext ''dlltool'' s
      in
      if \<not> hasCargo \<or> \<not> hasDlltool then
        (let s1 = announce_missing hasCargo hasDlltool s in
         if \<not> Test_Path (setupScript RepoRoot) s1
         then (Exit 1, Write_Host (''ERROR: Setup script not found at '' @ setupScript RepoRoot) s1)
         else
           andthen (invoke_script setup (log_event (EvSetup (setupScript RepoRoot)) s1))
             (recheck ext))
      else (Continue, s))"

text \<open>
  \<^verbatim>\<open>Push-Location\<close> puts the current location on the stack and moves to the directory; a
  directory that does not exist is a terminating error: the location stays, and the entry
  just pushed stays on the stack. \<^verbatim>\<open>Pop-Location\<close> moves back to the top of the stack and
  does nothing on an empty stack.
\<close>

definition Push_Location :: "string \<Rightarrow> session \<Rightarrow> status \<times> session" where
  "Push_Location dir s =
     (let s1 = s\<lparr>loc_stack := location s # loc_stack s\<rparr> in
      if Test_Path dir s then (Continue, s1\<lparr>location := dir\<rparr>) else (Throw, s1))"

definition Pop_Location :: "session \<Rightarrow> session" where
  "Pop_Location s =
     (case loc_stack s of [] \<Rightarrow> s | d # ds \<Rightarrow> s\<lparr>location := d, loc_stack := ds\<rparr>)"

definition cargo_args :: "bool \<Rightarrow> string list" where
  "cargo_args rel =
     (if rel then [''build'', ''--bin'', ''codexbar'', ''--release'']
      else [''build'', ''--bin'', ''codexbar''])"

definition cargo_build :: "externals \<Rightarrow> bool \<Rightarrow> session \<Rightarrow> status \<times> session" where
  "cargo_build ext rel s =
     (let s1 = Write_Host (if rel then ''Building CodexBar (release)...''
                           else ''Building CodexBar (debug)...'') s
      in
      andthen (fst (run_native ext ''cargo'' (cargo_args rel) (log_event (EvBuild (location s1) rel) s1)))
        (\<lambda>s2. if last_exit s2 \<noteq> 0 then (Exit (last_exit s2), s2) else (Continue, s2)))"

definition build_stage :: "externals \<Rightarrow> run_config \<Rightarrow> string \<Rightarrow> session \<Rightarrow> status \<times> session" where
  "build_stage ext cfg RustDir s =
     (if \<not> skip_build cfg then
        andthen (Push_Location RustDir s)
          (try_finally (cargo_build ext (release cfg)) Pop_Location)
      else (Continue, s))"

definition launch_args :: "bool \<Rightarrow> string list" where
  "launch_args verb = (let argv = [''menubar''] in if verb then [''-v''] @ argv else argv)"

definition launch :: "externals \<Rightarrow> string \<Rightarrow> bool \<Rightarrow> session \<Rightarrow> status \<times> session" where
  "launch ext binary verb s =
     (let argv = launch_args verb;
          s1 = Write_Host ''Starting CodexBar...'' (Write_Host [] s)
      in fst (run_native ext binary argv (log_event (EvLaunch binary argv) s1)))"

text \<open>
  The run stage of \<^verbatim>\<open>dev.ps1\<close>: one path per profile.
\<close>

definition binary_path :: "string \<Rightarrow> bool \<Rightarrow> string" where
  "binary_path RustDir rel =
     (if rel then Join_Path RustDir (''target'' @ bsl @ ''release'' @ bsl @ ''codexbar.exe'')
      else Join_Path RustDir (''target'' @ bsl @ ''debug'' @ bsl @ ''codexbar.exe''))"

definition run_stage :: "externals \<Rightarrow> run_config \<Rightarrow> string \<Rightarrow> session \<Rightarrow> status \<times> session" where
  "run_stage ext cfg RustDir s =
     (let binary = binary_path RustDir (release cfg);
          s0 = log_event (EvResolve [binary]) s
      in
      if \<not> Test_Path binary s0 then
        (Exit 1,
         Write_Host ''Run without -SkipBuild to build first.''
           (Write_Host (''ERROR: Binary not found at '' @ binary) s0))
      else launch ext binary (verbose cfg) s0)"

text \<open>
  The run stage of the second copy of the script: two candidate paths per profile, the
  first one that exists is taken (\<^verbatim>\<open>Where-Object { Test-Path $_ } | Select-Object -First 1\<close>),
  and \<^verbatim>\<open>-not $binary\<close> holds for \<^verbatim>\<open>$null\<close> and for the empty string.
\<close>

definition candidates :: "string \<Rightarrow> bool \<Rightarrow> string list" where
  "candidates RustDir rel =
     (let profile = (if rel then ''release'' else ''debug'') in
      [Join_Path RustDir (''target'' @ bsl @ profile @ bsl @ ''codexbar.exe''),
       Join_Path RustDir (''target'' @ bsl @ ''x86_64-pc-windows-gnu'' @ bsl @ profile @ bsl @ ''codexbar.exe'')])"

definition select_first :: "'a list \<Rightarrow> 'a option" where
  "select_first xs = (case xs of [] \<Rightarrow> None | x # rest \<Rightarrow> Some x)"

definition resolve_binary :: "string \<Rightarrow> bool \<Rightarrow> session \<Rightarrow> string option" where
  "resolve_binary RustDir rel s =
     select_first (filter (\<lambda>c. Test_Path c s) (candidates RustDir rel))"

definition run_stage_candidates ::
  "externals \<Rightarrow> run_config \<Rightarrow> string \<Rightarrow> session \<Rightarrow> status \<times> session" where
  "run_stage_candidates ext cfg RustDir s =
     (let cands = candidates RustDir (release cfg);
          s0 = log_event (EvResolve cands) s;
          binary = resolve_binary RustDir (release cfg) s0
      in
      if binary = None \<or> binary = Some [] then
        (Exit 1,
         Write_Host ''Run without -SkipBuild to build first.''
           (fold (\<lambda>c. Write_Host (''  '' @ c)) cands
             (Write_Host ''ERROR: Binary not found. Searched:'' s0)))
      else launch ext (the binary) (verbose cfg) s0)"

text \<open>
  The whole script, for a given setup script and run stage.
\<close>

definition pipeline ::
  "(session \<Rightarrow> status \<times> session) \<Rightarrow> (run_config \<Rightarrow> string \<Rightarrow> session \<Rightarrow> status \<times> session)
     \<Rightarrow> externals \<Rightarrow> run_config \<Rightarrow> string \<Rightarrow> session \<Rightarrow> status \<times> session" where
  "pipeline setup runstage ext cfg RepoRoot s =
     (let RustDir = Join_Path RepoRoot ''rust'' in
      andthen (session_path_setup s) (\<lambda>s1.
      andthen (check_prerequisites ext setup RepoRoot s1) (\<lambda>s2.
      andthen (build_stage ext cfg RustDir s2) (\<lambda>s3.
      runstage cfg RustDir s3))))"

definition dev_ps1 :: "externals \<Rightarrow> run_config \<Rightarrow> string \<Rightarrow> session \<Rightarrow> status \<times> session" where
  "dev_ps1 ext = pipeline (setup_windows_ps1 ext) (run_stage ext) ext"

definition dev_ps1_candidates :: "externals \<Rightarrow> run_config \<Rightarrow> string \<Rightarrow> session \<Rightarrow> status \<times> session" where
  "dev_ps1_candidates ext = pipeline (setup_windows_ps1 ext) (run_stage_candidates ext) ext"

section \<open>Reading the trace\<close>

text \<open>
  The events traced between two states of one run, and the downloads among some events
  (address and target file).
\<close>

definition events_since :: "session \<Rightarrow> session \<Rightarrow> event list" where
  "events_since s s' = drop (length (trace s)) (trace s')"

fun downloads :: "event list \<Rightarrow> (string \<times> string) list" where
  "downloads [] = []"
| "downloads (EvDownload uri outfile # es) = (uri, outfile) # downloads es"
| "downloads (e # es) = downloads es"

section \<open>Sample states\<close>

text \<open>
  A culture whose lower-casing changes the letters A to Z into a to z and nothing else; it
  agrees with the invariant culture on every path used in the examples.
\<close>

definition ascii_lower :: "char \<Rightarrow> char" where
  "ascii_lower c =
     (case map_of (zip ''ABCDEFGHIJKLMNOPQRSTUVWXYZ'' ''abcdefghijklmnopqrstuvwxyz'') c of
        Some l \<Rightarrow> l
      | None \<Rightarrow> c)"

text \<open>
  A machine with no files and no persisted user path, and a fresh session on it; the
  worked examples below start from these.
\<close>

definition sample_machine :: machine where
  "sample_machine = \<lparr>files = (\<lambda>p. False), user_path = None\<rparr>"

definition sample_session :: session where
  "sample_session =
     \<lparr>env_path = ''C:'' @ bsl @ ''Windows'',
      to_lower = ascii_lower,
      userprofile = ''C:'' @ bsl @ ''Users'' @ bsl @ ''dev'',
      temp_dir = ''C:'' @ bsl @ ''Temp'',
      location = ''C:'' @ bsl @ ''work'',
      loc_stack = [],
      last_exit = 0,
      console = [],
      trace = [],
      mach = sample_machine\<rparr>"

text \<open>
  External behaviour for the examples: no command is found, every native program starts
  and exits with code 0 without touching the machine, every web request succeeds,
  extracting an archive changes nothing, every deletion is let through, and the user
  environment accepts every value.
\<close>

definition sample_externals :: externals where
  "sample_externals =
     \<lparr>get_command = (\<lambda>name path m. False),
      native = (\<lambda>cmd args cwd path m. Some (0, [], m)),
      web_request = (\<lambda>uri m. True),
      expand_archive = (\<lambda>archive dest m. Some m),
      remove_item = (\<lambda>p m. True),
      set_environment = (\<lambda>v m. True)\<rparr>"

section \<open>The wildcard test on plain directory names\<close>

lemma wc_parse_started: "wc_parse esc st None acc xs = wc_parse esc False None acc xs"
  by (cases xs) simp_all

lemma wc_parse_lits:
  "wild_free d \<Longrightarrow>
   wc_parse False False None acc (d @ rest) = wc_parse False False None (acc @ map WLit d) rest"
  by (induction d arbitrary: acc) (simp_all add: wild_free_def)

lemma wc_parse_star_dir:
  assumes "wild_free d"
  shows "wc_parse False False None [] (''*'' @ d @ ''*'') = Some (WStar # map WLit d @ [WStar], False)"
proof -
  have "wc_parse False False None [] (''*'' @ d @ ''*'') = wc_parse False False None [WStar] (d @ ''*'')"
    by simp
  also have "\<dots> = wc_parse False False None ([WStar] @ map WLit d) ''*''"
    using assms by (rule wc_parse_lits)
  also have "\<dots> = Some (WStar # map WLit d @ [WStar], False)"
    by simp
  finally show ?thesis .
qed

lemma wc_match_star_only: "wc_match lc [WStar] s"
  by (induction s) simp_all

lemma wc_match_prefix:
  "wc_match lc (map WLit d @ [WStar]) s = prefix (map lc d) (map lc s)"
proof (induction d arbitrary: s)
  case Nil
  show ?case by (simp add: wc_match_star_only)
next
  case (Cons c d)
  show ?case by (cases s) (simp_all add: Cons.IH)
qed

lemma wc_match_infix:
  "wc_match lc (WStar # map WLit d @ [WStar]) s = sublist (map lc d) (map lc s)"
proof (induction s)
  case Nil
  show ?case by (cases d) (simp_all add: wc_match_star_only)
next
  case (Cons x xs)
  have "wc_match lc (WStar # map WLit d @ [WStar]) (x # xs)
          = (wc_match lc (map WLit d @ [WStar]) (x # xs)
             \<or> wc_match lc (WStar # map WLit d @ [WStar]) xs)"
    by simp
  also have "\<dots> = (prefix (map lc d) (map lc (x # xs)) \<or> sublist (map lc d) (map lc xs))"
    by (simp only: wc_match_prefix Cons.IH)
  also have "\<dots> = sublist (map lc d) (map lc (x # xs))"
    by (simp add: sublist_Cons_right)
  finally show ?case .
qed

lemma ps_like_contains:
  "wild_free d \<Longrightarrow> ps_like lc s (''*'' @ d @ ''*'') = Some (contains_ci lc d s)"
  by (simp add: ps_like_def wc_parse_star_dir wc_match_infix contains_ci_def
           del: wc_parse.simps wc_match.simps append.simps)

lemma ps_notlike_contains:
  "wild_free d \<Longrightarrow> ps_notlike lc s (''*'' @ d @ ''*'') = Some (\<not> contains_ci lc d s)"
  by (simp add: ps_notlike_def ps_like_contains del: append.simps)

section \<open>Sequencing\<close>

lemma andthen_Continue [simp]: "andthen (Continue, s) f = f s"
  by (simp add: andthen_def)

lemma andthen_Exit [simp]: "andthen (Exit n, s) f = (Exit n, s)"
  by (simp add: andthen_def)

lemma andthen_Throw [simp]: "andthen (Throw, s) f = (Throw, s)"
  by (simp add: andthen_def)

lemma andthen_return: "andthen r (\<lambda>s. (Continue, s)) = r"
  by (cases r; cases "fst r") (auto simp: andthen_def split: status.splits)

section \<open>Adding a directory to a search path\<close>

lemma contains_ci_front: "contains_ci lc d (d @ rest)"
  by (simp add: contains_ci_def)

lemma session_add_plain:
  "wild_free d \<Longrightarrow>
   session_add d s =
     (Continue, if contains_ci (to_lower s) d (env_path s) then s
                else s\<lparr>env_path := d @ '';'' @ env_path s\<rparr>)"
  by (simp add: session_add_def ps_notlike_contains del: append.simps)

lemma session_add_contained:
  "wild_free d \<Longrightarrow> env_path s = d @ rest \<Longrightarrow> session_add d s = (Continue, s)"
  by (simp add: session_add_plain contains_ci_front del: append.simps)

lemma user_add_contained:
  "wild_free d \<Longrightarrow> user_path (mach s) = Some (d @ rest) \<Longrightarrow>
   user_add ext d s = (Continue, Write_Host (''   '' @ d @ '' already in user PATH'') s)"
  by (simp add: user_add_def current_user_path_def ps_notlike_contains contains_ci_front
           del: append.simps)

text \<open>
  C3. The claim holds of the intent of the path-add operations and fails on the code at
  two kinds of input, both through the containment test \<^verbatim>\<open>-notlike "*$dir*"\<close>. With the
  session path \<^verbatim>\<open>C:\mingw64\bin2\<close>, in any culture, adding \<^verbatim>\<open>C:\mingw64\bin\<close> twice leaves the
  path without an entry equal to it, because the test finds the name inside the longer
  entry; the persisted user path behaves the same. With a bracket in the name the test
  does not recognise the name it has just added: \<^verbatim>\<open>C:\tools[1]\bin\<close> is put in front of
  the session path twice, and of the persisted user path twice.
\<close>

theorem path_add_twice_failing_inputs:
  "occurrences (''C:'' @ bsl @ ''mingw64'' @ bsl @ ''bin'')
     (env_path (snd (andthen
        (session_add (''C:'' @ bsl @ ''mingw64'' @ bsl @ ''bin'')
           (sample_session\<lparr>env_path := ''C:'' @ bsl @ ''mingw64'' @ bsl @ ''bin2'', to_lower := lc\<rparr>))
        (session_add (''C:'' @ bsl @ ''mingw64'' @ bsl @ ''bin''))))) = 0
   \<and> occurrences (''C:'' @ bsl @ ''mingw64'' @ bsl @ ''bin'')
     (current_user_path (snd (andthen
        (Add_ToUserPath ext (''C:'' @ bsl @ ''mingw64'' @ bsl @ ''bin'')
           (sample_session\<lparr>env_path := ''C:'' @ bsl @ ''mingw64'' @ bsl @ ''bin2'', to_lower := lc,
                           mach := sample_machine\<lparr>user_path := Some (''C:'' @ bsl @ ''mingw64'' @ bsl @ ''bin2'')\<rparr>\<rparr>))
        (Add_ToUserPath ext (''C:'' @ bsl @ ''mingw64'' @ bsl @ ''bin''))))) = 0
   \<and> occurrences (''C:'' @ bsl @ ''tools[1]'' @ bsl @ ''bin'')
     (env_path (snd (andthen
        (session_add (''C:'' @ bsl @ ''tools[1]'' @ bsl @ ''bin'') sample_session)
        (session_add (''C:'' @ bsl @ ''tools[1]'' @ bsl @ ''bin''))))) = 2
   \<and> occurrences (''C:'' @ bsl @ ''tools[1]'' @ bsl @ ''bin'')
     (current_user_path (snd (andthen
        (Add_ToUserPath sample_externals (''C:'' @ bsl @ ''tools[1]'' @ bsl @ ''bin'') sample_session)
        (Add_ToUserPath sample_externals (''C:'' @ bsl @ ''tools[1]'' @ bsl @ ''bin''))))) = 2"
proof -
  let ?d = "''C:'' @ bsl @ ''mingw64'' @ bsl @ ''bin''"
  let ?s = "sample_session\<lparr>env_path := ''C:'' @ bsl @ ''mingw64'' @ bsl @ ''bin2'', to_lower := lc\<rparr>"
  let ?u = "sample_session\<lparr>env_path := ''C:'' @ bsl @ ''mingw64'' @ bsl @ ''bin2'', to_lower := lc,
                           mach := sample_machine\<lparr>user_path := Some (''C:'' @ bsl @ ''mingw64'' @ bsl @ ''bin2'')\<rparr>\<rparr>"
  let ?m = "Write_Host (''   '' @ ?d @ '' already in user PATH'')"
  have w: "wild_free ?d"
    by (simp add: wild_free_def)
  have a: "session_add ?d ?s = (Continue, ?s)"
    by (rule session_add_contained [OF w, of _ "''2''"]) simp
  have b: "user_add ext ?d ?u = (Continue, ?m ?u)"
    by (rule user_add_contained [OF w, of _ "''2''"]) simp
  have c: "session_add ?d (?m ?u) = (Continue, ?m ?u)"
    by (rule session_add_contained [OF w, of _ "''2''"]) (simp add: Write_Host_def)
  have d: "user_add ext ?d (?m ?u) = (Continue, ?m (?m ?u))"
    by (rule user_add_contained [OF w, of _ "''2''"]) (simp add: Write_Host_def)
  have e: "session_add ?d (?m (?m ?u)) = (Continue, ?m (?m ?u))"
    by (rule session_add_contained [OF w, of _ "''2''"]) (simp add: Write_Host_def)
  have 1: "occurrences ?d (env_path (snd (andthen (session_add ?d ?s) (session_add ?d)))) = 0"
    by (simp only: a andthen_Continue snd_conv) (simp add: occurrences_def)
  have "andthen (Add_ToUserPath ext ?d ?u) (Add_ToUserPath ext ?d) = (Continue, ?m (?m ?u))"
    by (simp only: Add_ToUserPath_def b c d e andthen_Continue)
  then have 2: "occurrences ?d (current_user_path (snd (andthen (Add_ToUserPath ext ?d ?u)
                  (Add_ToUserPath ext ?d)))) = 0"
    by (simp add: occurrences_def current_user_path_def Write_Host_def)
  have 3: "occurrences (''C:'' @ bsl @ ''tools[1]'' @ bsl @ ''bin'')
     (env_path (snd (andthen
        (session_add (''C:'' @ bsl @ ''tools[1]'' @ bsl @ ''bin'') sample_session)
        (session_add (''C:'' @ bsl @ ''tools[1]'' @ bsl @ ''bin''))))) = 2"
    by code_simp
  have 4: "occurrences (''C:'' @ bsl @ ''tools[1]'' @ bsl @ ''bin'')
     (current_user_path (snd (andthen
        (Add_ToUserPath sample_externals (''C:'' @ bsl @ ''tools[1]'' @ bsl @ ''bin'') sample_session)
        (Add_ToUserPath sample_externals (''C:'' @ bsl @ ''tools[1]'' @ bsl @ ''bin''))))) = 2"
    by code_simp
  show ?thesis
    using 1 2 3 4 by blast
qed

section \<open>The persisted user-level path-add\<close>

text \<open>
  C8. The claim holds of the intent of \<^verbatim>\<open>Add-ToUserPath\<close> and fails on the code. With the
  persisted user path \<^verbatim>\<open>C:\mingw64\bin2\<close> and the session path \<^verbatim>\<open>C:\mingw64\bin2;C:\Windows\<close>,
  in any culture and whatever the outside world does, the call for \<^verbatim>\<open>C:\mingw64\bin\<close>
  completes, prints that the directory is already in the user path, and leaves both
  paths as they were: the directory is an entry of neither. With both paths holding
  \<^verbatim>\<open>C:\tools1\bin\<close>, the call for \<^verbatim>\<open>C:\tools[1]\bin\<close> prints the same and adds nothing, since
  the bracket matches the digit; the name then occurs in neither path, not even inside
  an entry.
\<close>

theorem Add_ToUserPath_failing_input:
  "fst (Add_ToUserPath ext (''C:'' @ bsl @ ''mingw64'' @ bsl @ ''bin'')
          (sample_session\<lparr>env_path := ''C:'' @ bsl @ ''mingw64'' @ bsl @ ''bin2;C:'' @ bsl @ ''Windows'',
                          to_lower := lc,
                          mach := sample_machine\<lparr>user_path := Some (''C:'' @ bsl @ ''mingw64'' @ bsl @ ''bin2'')\<rparr>\<rparr>))
     = Continue
   \<and> console (snd (Add_ToUserPath ext (''C:'' @ bsl @ ''mingw64'' @ bsl @ ''bin'')
          (sample_session\<lparr>env_path := ''C:'' @ bsl @ ''mingw64'' @ bsl @ ''bin2;C:'' @ bsl @ ''Windows'',
                          to_lower := lc,
                          mach := sample_machine\<lparr>user_path := Some (''C:'' @ bsl @ ''mingw64'' @ bsl @ ''bin2'')\<rparr>\<rparr>)))
     = [''   C:'' @ bsl @ ''mingw64'' @ bsl @ ''bin already in user PATH'']
   \<and> ''C:'' @ bsl @ ''mingw64'' @ bsl @ ''bin'' \<notin> set (path_entries (current_user_path (snd
        (Add_ToUserPath ext (''C:'' @ bsl @ ''mingw64'' @ bsl @ ''bin'')
          (sample_session\<lparr>env_path := ''C:'' @ bsl @ ''mingw64'' @ bsl @ ''bin2;C:'' @ bsl @ ''Windows'',
                          to_lower := lc,
                          mach := sample_machine\<lparr>user_path := Some (''C:'' @ bsl @ ''mingw64'' @ bsl @ ''bin2'')\<rparr>\<rparr>)))))
   \<and> ''C:'' @ bsl @ ''mingw64'' @ bsl @ ''bin'' \<notin> set (path_entries (env_path (snd
        (Add_ToUserPath ext (''C:'' @ bsl @ ''mingw64'' @ bsl @ ''bin'')
          (sample_session\<lparr>env_path := ''C:'' @ bsl @ ''mingw64'' @ bsl @ ''bin2;C:'' @ bsl @ ''Windows'',
                          to_lower := lc,
                          mach := sample_machine\<lparr>user_path := Some (''C:'' @ bsl @ ''mingw64'' @ bsl @ ''bin2'')\<rparr>\<rparr>)))))
   \<and> fst (Add_ToUserPath sample_externals (''C:'' @ bsl @ ''tools[1]'' @ bsl @ ''bin'')
          (sample_session\<lparr>env_path := ''C:'' @ bsl @ ''tools1'' @ bsl @ ''bin'',
                          mach := sample_machine\<lparr>user_path := Some (''C:'' @ bsl @ ''tools1'' @ bsl @ ''bin'')\<rparr>\<rparr>))
     = Continue
   \<and> console (snd (Add_ToUserPath sample_externals (''C:'' @ bsl @ ''tools[1]'' @ bsl @ ''bin'')
          (sample_session\<lparr>env_path := ''C:'' @ bsl @ ''tools1'' @ bsl @ ''bin'',
                          mach := sample_machine\<lparr>user_path := Some (''C:'' @ bsl @ ''tools1'' @ bsl @ ''bin'')\<rparr>\<rparr>)))
     = [''   C:'' @ bsl @ ''tools[1]'' @ bsl @ ''bin already in user PATH'']
   \<and> \<not> contains_ci ascii_lower (''C:'' @ bsl @ ''tools[1]'' @ bsl @ ''bin'') (current_user_path (snd
        (Add_ToUserPath sample_externals (''C:'' @ bsl @ ''tools[1]'' @ bsl @ ''bin'')
          (sample_session\<lparr>env_path := ''C:'' @ bsl @ ''tools1'' @ bsl @ ''bin'',
                          mach := sample_machine\<lparr>user_path := Some (''C:'' @ bsl @ ''tools1'' @ bsl @ ''bin'')\<rparr>\<rparr>))))
   \<and> \<not> contains_ci ascii_lower (''C:'' @ bsl @ ''tools[1]'' @ bsl @ ''bin'') (env_path (snd
        (Add_ToUserPath sample_externals (''C:'' @ bsl @ ''tools[1]'' @ bsl @ ''bin'')
          (sample_session\<lparr>env_path := ''C:'' @ bsl @ ''tools1'' @ bsl @ ''bin'',
                          mach := sample_machine\<lparr>user_path := Some (''C:'' @ bsl @ ''tools1'' @ bsl @ ''bin'')\<rparr>\<rparr>))))"
proof -
  let ?d = "''C:'' @ bsl @ ''mingw64'' @ bsl @ ''bin''"
  let ?u = "sample_session\<lparr>env_path := ''C:'' @ bsl @ ''mingw64'' @ bsl @ ''bin2;C:'' @ bsl @ ''Windows'',
                          to_lower := lc,
                          mach := sample_machine\<lparr>user_path := Some (''C:'' @ bsl @ ''mingw64'' @ bsl @ ''bin2'')\<rparr>\<rparr>"
  let ?m = "Write_Host (''   '' @ ?d @ '' already in user PATH'')"
  let ?b = "''C:'' @ bsl @ ''tools[1]'' @ bsl @ ''bin''"
  let ?v = "sample_session\<lparr>env_path := ''C:'' @ bsl @ ''tools1'' @ bsl @ ''bin'',
                          mach := sample_machine\<lparr>user_path := Some (''C:'' @ bsl @ ''tools1'' @ bsl @ ''bin'')\<rparr>\<rparr>"
  have w: "wild_free ?d"
    by (simp add: wild_free_def)
  have b: "user_add ext ?d ?u = (Continue, ?m ?u)"
    by (rule user_add_contained [OF w, of _ "''2''"]) simp
  have c: "session_add ?d (?m ?u) = (Continue, ?m ?u)"
    by (rule session_add_contained [OF w, of _ "''2;C:'' @ bsl @ ''Windows''"])
       (simp add: Write_Host_def)
  have r: "Add_ToUserPath ext ?d ?u = (Continue, ?m ?u)"
    by (simp only: Add_ToUserPath_def b c andthen_Continue)
  have 1: "fst (Add_ToUserPath ext ?d ?u) = Continue
           \<and> console (snd (Add_ToUserPath ext ?d ?u))
               = [''   C:'' @ bsl @ ''mingw64'' @ bsl @ ''bin already in user PATH'']
           \<and> ?d \<notin> set (path_entries (current_user_path (snd (Add_ToUserPath ext ?d ?u))))
           \<and> ?d \<notin> set (path_entries (env_path (snd (Add_ToUserPath ext ?d ?u))))"
    unfolding r by (simp add: Write_Host_def current_user_path_def sample_session_def)
  have 2: "fst (Add_ToUserPath sample_externals ?b ?v) = Continue
           \<and> console (snd (Add_ToUserPath sample_externals ?b ?v))
               = [''   C:'' @ bsl @ ''tools[1]'' @ bsl @ ''bin already in user PATH'']
           \<and> \<not> contains_ci ascii_lower ?b (current_user_path (snd (Add_ToUserPath sample_externals ?b ?v)))
           \<and> \<not> contains_ci ascii_lower ?b (env_path (snd (Add_ToUserPath sample_externals ?b ?v)))"
    by code_simp
  show ?thesis
    using 1 2 by blast
qed

section \<open>The session path at the start of the pipeline\<close>

lemma knownPaths_eq: "knownPaths s = [CargoBin s, MinGWBin]"
  by (simp add: knownPaths_def CargoBin_def MinGWBin_def MinGWDir_def)

lemma session_path_setup_unfold:
  "session_path_setup s =
     andthen (ensure_known_path (CargoBin s) s) (\<lambda>s1. ensure_known_path MinGWBin s1)"
proof -
  have "foreach [] ensure_known_path = (\<lambda>s. (Continue, s))"
    by (rule ext) simp
  then have "foreach [MinGWBin] ensure_known_path = ensure_known_path MinGWBin"
    by (intro ext) (simp add: andthen_return)
  then show ?thesis
    by (simp add: session_path_setup_def knownPaths_eq)
qed

text \<open>
  C9. The claim holds of the intent of the loop and fails on the code when the user
  profile has a character of wildcard syntax in its name. With the profile
  \<^verbatim>\<open>C:\Users\a`b\<close>, the directory \<^verbatim>\<open>C:\Users\a`b\.cargo\bin\<close> found by \<^verbatim>\<open>Test-Path\<close> and already
  the first entry of the session path, the loop puts the directory in front once more:
  the backtick in the unescaped pattern escapes the next letter, so the test looks for
  \<^verbatim>\<open>C:\Users\ab\.cargo\bin\<close> and does not find the entry that is there.
\<close>

theorem session_path_setup_failing_input:
  "Test_Path (''C:'' @ bsl @ ''Users'' @ bsl @ ''a'' @ [CHR 0x60] @ ''b'' @ bsl @ ''.cargo'' @ bsl @ ''bin'')
     (sample_session
        \<lparr>userprofile := ''C:'' @ bsl @ ''Users'' @ bsl @ ''a'' @ [CHR 0x60] @ ''b'',
         env_path := ''C:'' @ bsl @ ''Users'' @ bsl @ ''a'' @ [CHR 0x60] @ ''b'' @ bsl @ ''.cargo'' @ bsl @ ''bin;C:'' @ bsl @ ''Windows'',
         mach := sample_machine\<lparr>files := (\<lambda>p. p =
           ''C:'' @ bsl @ ''Users'' @ bsl @ ''a'' @ [CHR 0x60] @ ''b'' @ bsl @ ''.cargo'' @ bsl @ ''bin'')\<rparr>\<rparr>)
   \<and> occurrences (''C:'' @ bsl @ ''Users'' @ bsl @ ''a'' @ [CHR 0x60] @ ''b'' @ bsl @ ''.cargo'' @ bsl @ ''bin'')
       (''C:'' @ bsl @ ''Users'' @ bsl @ ''a'' @ [CHR 0x60] @ ''b'' @ bsl @ ''.cargo'' @ bsl @ ''bin;C:'' @ bsl @ ''Windows'')
       = 1
   \<and> fst (session_path_setup
       (sample_session
          \<lparr>userprofile := ''C:'' @ bsl @ ''Users'' @ bsl @ ''a'' @ [CHR 0x60] @ ''b'',
           env_path := ''C:'' @ bsl @ ''Users'' @ bsl @ ''a'' @ [CHR 0x60] @ ''b'' @ bsl @ ''.cargo'' @ bsl @ ''bin;C:'' @ bsl @ ''Windows'',
           mach := sample_machine\<lparr>files := (\<lambda>p. p =
             ''C:'' @ bsl @ ''Users'' @ bsl @ ''a'' @ [CHR 0x60] @ ''b'' @ bsl @ ''.cargo'' @ bsl @ ''bin'')\<rparr>\<rparr>))
       = Continue
   \<and> env_path (snd (session_path_setup
       (sample_session
          \<lparr>userprofile := ''C:'' @ bsl @ ''Users'' @ bsl @ ''a'' @ [CHR 0x60] @ ''b'',
           env_path := ''C:'' @ bsl @ ''Users'' @ bsl @ ''a'' @ [CHR 0x60] @ ''b'' @ bsl @ ''.cargo'' @ bsl @ ''bin;C:'' @ bsl @ ''Windows'',
           mach := sample_machine\<lparr>files := (\<lambda>p. p =
             ''C:'' @ bsl @ ''Users'' @ bsl @ ''a'' @ [CHR 0x60] @ ''b'' @ bsl @ ''.cargo'' @ bsl @ ''bin'')\<rparr>\<rparr>)))
       = ''C:'' @ bsl @ ''Users'' @ bsl @ ''a'' @ [CHR 0x60] @ ''b'' @ bsl @ ''.cargo'' @ bsl @ ''bin;C:''
           @ bsl @ ''Users'' @ bsl @ ''a'' @ [CHR 0x60] @ ''b'' @ bsl @ ''.cargo'' @ bsl @ ''bin;C:'' @ bsl @ ''Windows''
   \<and> occurrences (''C:'' @ bsl @ ''Users'' @ bsl @ ''a'' @ [CHR 0x60] @ ''b'' @ bsl @ ''.cargo'' @ bsl @ ''bin'')
       (env_path (snd (session_path_setup
         (sample_session
            \<lparr>userprofile := ''C:'' @ bsl @ ''Users'' @ bsl @ ''a'' @ [CHR 0x60] @ ''b'',
             env_path := ''C:'' @ bsl @ ''Users'' @ bsl @ ''a'' @ [CHR 0x60] @ ''b'' @ bsl @ ''.cargo'' @ bsl @ ''bin;C:'' @ bsl @ ''Windows'',
             mach := sample_machine\<lparr>files := (\<lambda>p. p =
               ''C:'' @ bsl @ ''Users'' @ bsl @ ''a'' @ [CHR 0x60] @ ''b'' @ bsl @ ''.cargo'' @ bsl @ ''bin'')\<rparr>\<rparr>))))
       = 2"
  by code_simp

section \<open>The build stage\<close>

lemma cargo_build_cases:
  "cargo_build ext rel s =
     (let s1 = log_event (EvBuild (location s) rel)
                 (Write_Host (if rel then ''Building CodexBar (release)...''
                              else ''Building CodexBar (debug)...'') s)
      in case native ext ''cargo'' (cargo_args rel) (location s) (env_path s) (mach s) of
           None \<Rightarrow> (Throw, s1)
         | Some (n, out, m) \<Rightarrow>
             (if n \<noteq> 0 then Exit n else Continue, s1\<lparr>last_exit := n, mach := m\<rparr>))"
  by (simp add: cargo_build_def run_native_def log_event_def Write_Host_def Let_def
           split: option.splits)

lemma build_stage_cases:
  "build_stage ext cfg RustDir s =
     (if skip_build cfg then (Continue, s)
      else if \<not> Test_Path RustDir s then (Throw, s\<lparr>loc_stack := location s # loc_stack s\<rparr>)
      else
        (let s1 = (Write_Host (if release cfg then ''Building CodexBar (release)...''
                               else ''Building CodexBar (debug)...'') s)
                    \<lparr>trace := trace s @ [EvBuild RustDir (release cfg)]\<rparr>
         in case native ext ''cargo'' (cargo_args (release cfg)) RustDir (env_path s) (mach s) of
              None \<Rightarrow> (Throw, s1)
            | Some (n, out, m) \<Rightarrow>
                (if n \<noteq> 0 then Exit n else Continue, s1\<lparr>last_exit := n, mach := m\<rparr>)))"
  by (auto simp: build_stage_def Push_Location_def Pop_Location_def try_finally_def
        cargo_build_cases log_event_def Write_Host_def Let_def Test_Path_def
           split: option.splits)

text \<open>
  C6. The build stage starts \<^verbatim>\<open>cargo\<close> with the project's \<^verbatim>\<open>rust\<close> directory as the
  current location, and the location in force before the stage is in force again when the
  stage ends, whichever way it ends: the build succeeded, the build exited with a
  non-zero code (the stage ends the script with it), the build could not be started (a
  terminating error), the directory could not be entered, or the build was skipped. The
  location stack is back to what it was whenever the directory was entered.
\<close>

theorem build_stage_restores_location:
  "location (snd (build_stage ext cfg RustDir s)) = location s
   \<and> trace (snd (build_stage ext cfg RustDir s)) =
       trace s @ (if \<not> skip_build cfg \<and> Test_Path RustDir s
                  then [EvBuild RustDir (release cfg)] else [])
   \<and> (\<not> skip_build cfg \<and> Test_Path RustDir s \<longrightarrow>
        loc_stack (snd (build_stage ext cfg RustDir s)) = loc_stack s
        \<and> fst (build_stage ext cfg RustDir s) =
            (case native ext ''cargo'' (cargo_args (release cfg)) RustDir (env_path s) (mach s) of
               None \<Rightarrow> Throw
             | Some (n, out, m) \<Rightarrow> if n \<noteq> 0 then Exit n else Continue))"
  by (simp add: build_stage_cases Write_Host_def Let_def split: option.splits)


theorem build_stage_restores_location_witness:
  "\<not> skip_build \<lparr>release = True, skip_build = False, verbose = False\<rparr>
   \<and> Test_Path (''C:'' @ bsl @ ''repo'' @ bsl @ ''rust'')
        (sample_session\<lparr>mach := sample_machine\<lparr>files := (\<lambda>p. True)\<rparr>\<rparr>)
   \<and> location (snd (build_stage (sample_externals\<lparr>native := (\<lambda>cmd args cwd path m. None)\<rparr>)
        \<lparr>release = True, skip_build = False, verbose = False\<rparr> (''C:'' @ bsl @ ''repo'' @ bsl @ ''rust'')
        (sample_session\<lparr>mach := sample_machine\<lparr>files := (\<lambda>p. True)\<rparr>\<rparr>)))
       = ''C:'' @ bsl @ ''work''
   \<and> fst (build_stage (sample_externals\<lparr>native := (\<lambda>cmd args cwd path m. None)\<rparr>)
        \<lparr>release = True, skip_build = False, verbose = False\<rparr> (''C:'' @ bsl @ ''repo'' @ bsl @ ''rust'')
        (sample_session\<lparr>mach := sample_machine\<lparr>files := (\<lambda>p. True)\<rparr>\<rparr>))
       = Throw
   \<and> location (snd (build_stage (sample_externals\<lparr>native := (\<lambda>cmd args cwd path m. Some (101, [], m))\<rparr>)
        \<lparr>release = True, skip_build = False, verbose = False\<rparr> (''C:'' @ bsl @ ''repo'' @ bsl @ ''rust'')
        (sample_session\<lparr>mach := sample_machine\<lparr>files := (\<lambda>p. True)\<rparr>\<rparr>)))
       = ''C:'' @ bsl @ ''work''
   \<and> fst (build_stage (sample_externals\<lparr>native := (\<lambda>cmd args cwd path m. Some (101, [], m))\<rparr>)
        \<lparr>release = True, skip_build = False, verbose = False\<rparr> (''C:'' @ bsl @ ''repo'' @ bsl @ ''rust'')
        (sample_session\<lparr>mach := sample_machine\<lparr>files := (\<lambda>p. True)\<rparr>\<rparr>))
       = Exit 101"
proof -
  let ?cfg = "\<lparr>release = True, skip_build = False, verbose = False\<rparr>"
  let ?s = "sample_session\<lparr>mach := sample_machine\<lparr>files := (\<lambda>p. True)\<rparr>\<rparr>"
  let ?R = "''C:'' @ bsl @ ''repo'' @ bsl @ ''rust''"
  have h: "\<not> skip_build ?cfg \<and> Test_Path ?R ?s"
    by (simp add: Test_Path_def)
  have l: "location ?s = ''C:'' @ bsl @ ''work''"
    by (simp add: sample_session_def)
  show ?thesis
    using build_stage_restores_location
            [of "sample_externals\<lparr>native := (\<lambda>cmd args cwd path m. None)\<rparr>" ?cfg ?R ?s]
          build_stage_restores_location
            [of "sample_externals\<lparr>native := (\<lambda>cmd args cwd path m. Some (101, [], m))\<rparr>" ?cfg ?R ?s]
          h l
    by simp
qed

section \<open>The pipeline as a whole\<close>

lemma announce_missing_mach [simp]: "mach (announce_missing a b s) = mach s"
  by (simp add: announce_missing_def Write_Host_def Let_def)

lemma Test_Path_announce [simp]: "Test_Path p (announce_missing a b s) = Test_Path p s"
  by (simp add: Test_Path_def)

lemma check_prerequisites_missing:
  assumes "\<not> Get_Command ext ''cargo'' s \<or> \<not> Get_Command ext ''dlltool'' s"
      and "Test_Path (setupScript RepoRoot) s"
  shows "check_prerequisites ext setup RepoRoot s =
           andthen (invoke_script setup (log_event (EvSetup (setupScript RepoRoot))
                      (announce_missing (Get_Command ext ''cargo'' s) (Get_Command ext ''dlltool'' s) s)))
             (recheck ext)"
  using assms by (auto simp: check_prerequisites_def Let_def)

lemma recheck_cases:
  "recheck ext s =
     (if Get_Command ext ''cargo'' s \<and> Get_Command ext ''dlltool'' s then (Continue, s)
      else (Exit 1, s\<lparr>console := console s @ [[], ''ERROR: Prerequisites still missing after setup.'',
                                               ''Please restart your terminal and try again.'']\<rparr>))"
  by (auto simp: recheck_def Write_Host_def Let_def)

text \<open>
  C2. When the build is not skipped and \<^verbatim>\<open>cargo build\<close>, once reached, exits with a
  non-zero code \<open>n\<close>, the pipeline ends with exit code \<open>n\<close>. The only action traced after
  the prerequisite stage is the build itself: no binary is looked for and none is
  launched, and the outcome is the same whatever the run stage would have done.
\<close>

theorem build_failure_halts_pipeline:
  assumes "\<not> skip_build cfg"
      and "session_path_setup s = (Continue, s1)"
      and "check_prerequisites ext setup RepoRoot s1 = (Continue, s2)"
      and "Test_Path (Join_Path RepoRoot ''rust'') s2"
      and "native ext ''cargo'' (cargo_args (release cfg)) (Join_Path RepoRoot ''rust'')
             (env_path s2) (mach s2) = Some (n, out, m)"
      and "n \<noteq> 0"
  shows "fst (pipeline setup runstage ext cfg RepoRoot s) = Exit n
       \<and> trace (snd (pipeline setup runstage ext cfg RepoRoot s))
           = trace s2 @ [EvBuild (Join_Path RepoRoot ''rust'') (release cfg)]
       \<and> location (snd (pipeline setup runstage ext cfg RepoRoot s)) = location s2
       \<and> pipeline setup runstage ext cfg RepoRoot s = pipeline setup other_runstage ext cfg RepoRoot s"
  using assms
  by (simp add: pipeline_def build_stage_cases Write_Host_def Let_def)

theorem build_failure_halts_pipeline_witness:
  "\<not> skip_build \<lparr>release = False, skip_build = False, verbose = True\<rparr>
   \<and> (2::int) \<noteq> 0
   \<and> fst (dev_ps1 (sample_externals\<lparr>get_command := (\<lambda>name path m. True),
                                     native := (\<lambda>cmd args cwd path m. Some (2, [], m))\<rparr>)
        \<lparr>release = False, skip_build = False, verbose = True\<rparr> (''C:'' @ bsl @ ''repo'')
        (sample_session\<lparr>mach := sample_machine\<lparr>files := (\<lambda>p. p = ''C:'' @ bsl @ ''repo'' @ bsl @ ''rust'')\<rparr>\<rparr>))
       = Exit 2
   \<and> trace (snd (dev_ps1 (sample_externals\<lparr>get_command := (\<lambda>name path m. True),
                                     native := (\<lambda>cmd args cwd path m. Some (2, [], m))\<rparr>)
        \<lparr>release = False, skip_build = False, verbose = True\<rparr> (''C:'' @ bsl @ ''repo'')
        (sample_session\<lparr>mach := sample_machine\<lparr>files := (\<lambda>p. p = ''C:'' @ bsl @ ''repo'' @ bsl @ ''rust'')\<rparr>\<rparr>)))
       = [EvBuild (''C:'' @ bsl @ ''repo'' @ bsl @ ''rust'') False]
   \<and> fst (dev_ps1_candidates (sample_externals\<lparr>get_command := (\<lambda>name path m. True),
                                     native := (\<lambda>cmd args cwd path m. Some (2, [], m))\<rparr>)
        \<lparr>release = False, skip_build = False, verbose = True\<rparr> (''C:'' @ bsl @ ''repo'')
        (sample_session\<lparr>mach := sample_machine\<lparr>files := (\<lambda>p. p = ''C:'' @ bsl @ ''repo'' @ bsl @ ''rust'')\<rparr>\<rparr>))
       = Exit 2"
proof -
  let ?ext = "sample_externals\<lparr>get_command := (\<lambda>name path m. True),
                                native := (\<lambda>cmd args cwd path m. Some (2, [], m))\<rparr>"
  let ?cfg = "\<lparr>release = False, skip_build = False, verbose = True\<rparr>"
  let ?s = "sample_session\<lparr>mach := sample_machine\<lparr>files := (\<lambda>p. p = ''C:'' @ bsl @ ''repo'' @ bsl @ ''rust'')\<rparr>\<rparr>"
  have h1: "\<not> skip_build ?cfg" by simp
  have h2: "session_path_setup ?s = (Continue, ?s)"
    by (simp add: session_path_setup_unfold ensure_known_path_def Test_Path_def CargoBin_def
          MinGWBin_def MinGWDir_def sample_session_def)
  have h3: "check_prerequisites ?ext (setup_windows_ps1 ?ext) (''C:'' @ bsl @ ''repo'') ?s = (Continue, ?s)"
    by (simp add: check_prerequisites_def Get_Command_def)
  have h4: "Test_Path (Join_Path (''C:'' @ bsl @ ''repo'') ''rust'') ?s"
    by (simp add: Join_Path_def Test_Path_def)
  have h5: "native ?ext ''cargo'' (cargo_args (release ?cfg)) (Join_Path (''C:'' @ bsl @ ''repo'') ''rust'')
              (env_path ?s) (mach ?s) = Some (2, [], mach ?s)"
    by simp
  have h6: "(2::int) \<noteq> 0" by simp
  have t: "trace ?s = []" by (simp add: sample_session_def)
  show ?thesis
    using build_failure_halts_pipeline [OF h1 h2 h3 h4 h5 h6, of "run_stage ?ext" "run_stage ?ext"]
          build_failure_halts_pipeline [OF h1 h2 h3 h4 h5 h6, of "run_stage_candidates ?ext"
            "run_stage_candidates ?ext"] t
    by (simp add: dev_ps1_def dev_ps1_candidates_def Join_Path_def)
qed

text \<open>
  C5. When a tool is missing at the first probe, the setup script is there and runs to
  its end, and a tool is still missing at the second probe, the pipeline ends with exit
  code 1. Nothing is traced after the setup script's own actions and the machine and the
  location are as the setup script left them: the build stage is not entered.
\<close>

theorem missing_after_setup_halts:
  assumes "session_path_setup s = (Continue, s1)"
      and "\<not> Get_Command ext ''cargo'' s1 \<or> \<not> Get_Command ext ''dlltool'' s1"
      and "Test_Path (setupScript RepoRoot) s1"
      and "invoke_script setup (log_event (EvSetup (setupScript RepoRoot))
             (announce_missing (Get_Command ext ''cargo'' s1) (Get_Command ext ''dlltool'' s1) s1))
           = (Continue, s4)"
      and "\<not> Get_Command ext ''cargo'' s4 \<or> \<not> Get_Command ext ''dlltool'' s4"
  shows "fst (pipeline setup runstage ext cfg RepoRoot s) = Exit 1
       \<and> trace (snd (pipeline setup runstage ext cfg RepoRoot s)) = trace s4
       \<and> mach (snd (pipeline setup runstage ext cfg RepoRoot s)) = mach s4
       \<and> location (snd (pipeline setup runstage ext cfg RepoRoot s)) = location s4"
proof -
  have "check_prerequisites ext setup RepoRoot s1 = recheck ext s4"
    using assms(2,3,4) by (simp add: check_prerequisites_missing)
  moreover have "recheck ext s4 =
      (Exit 1, s4\<lparr>console := console s4 @ [[], ''ERROR: Prerequisites still missing after setup.'',
                                               ''Please restart your terminal and try again.'']\<rparr>)"
    using assms(5) by (auto simp: recheck_cases)
  ultimately show ?thesis
    using assms(1) by (simp add: pipeline_def Let_def)
qed

text \<open>
  In the example every probe fails and the modelled setup script itself is the installer:
  it downloads, installs and extends both paths, the second probe still finds nothing, and
  the script ends with exit code 1.
\<close>

theorem missing_after_setup_halts_witness:
  "\<not> Get_Command sample_externals ''cargo''
        (sample_session\<lparr>mach := sample_machine\<lparr>files := (\<lambda>p. p = setupScript (''C:'' @ bsl @ ''repo''))\<rparr>\<rparr>)
   \<and> \<not> Get_Command sample_externals ''dlltool''
        (sample_session\<lparr>mach := sample_machine\<lparr>files := (\<lambda>p. p = setupScript (''C:'' @ bsl @ ''repo''))\<rparr>\<rparr>)
   \<and> Test_Path (setupScript (''C:'' @ bsl @ ''repo''))
        (sample_session\<lparr>mach := sample_machine\<lparr>files := (\<lambda>p. p = setupScript (''C:'' @ bsl @ ''repo''))\<rparr>\<rparr>)
   \<and> fst (invoke_script (setup_windows_ps1 sample_externals)
         (log_event (EvSetup (setupScript (''C:'' @ bsl @ ''repo'')))
            (announce_missing False False
               (sample_session\<lparr>mach := sample_machine\<lparr>files := (\<lambda>p. p = setupScript (''C:'' @ bsl @ ''repo''))\<rparr>\<rparr>))))
       = Continue
   \<and> fst (dev_ps1 sample_externals \<lparr>release = False, skip_build = False, verbose = False\<rparr>
         (''C:'' @ bsl @ ''repo'')
         (sample_session\<lparr>mach := sample_machine\<lparr>files := (\<lambda>p. p = setupScript (''C:'' @ bsl @ ''repo''))\<rparr>\<rparr>))
       = Exit 1"
proof -
  let ?s = "sample_session\<lparr>mach := sample_machine\<lparr>files := (\<lambda>p. p = setupScript (''C:'' @ bsl @ ''repo''))\<rparr>\<rparr>"
  let ?a = "log_event (EvSetup (setupScript (''C:'' @ bsl @ ''repo'')))
              (announce_missing (Get_Command sample_externals ''cargo'' ?s)
                 (Get_Command sample_externals ''dlltool'' ?s) ?s)"
  have g: "\<And>name s. \<not> Get_Command sample_externals name s"
    by (simp add: Get_Command_def sample_externals_def)
  have h1: "session_path_setup ?s = (Continue, ?s)"
    by (simp add: session_path_setup_unfold ensure_known_path_def Test_Path_def CargoBin_def
          MinGWBin_def MinGWDir_def sample_session_def setupScript_def Join_Path_def)
  have h2: "\<not> Get_Command sample_externals ''cargo'' ?s \<or> \<not> Get_Command sample_externals ''dlltool'' ?s"
    by (simp add: g)
  have h3: "Test_Path (setupScript (''C:'' @ bsl @ ''repo'')) ?s"
    by (simp add: Test_Path_def)
  have c: "fst (invoke_script (setup_windows_ps1 sample_externals)
         (log_event (EvSetup (setupScript (''C:'' @ bsl @ ''repo'')))
            (announce_missing False False
               (sample_session\<lparr>mach := sample_machine\<lparr>files := (\<lambda>p. p = setupScript (''C:'' @ bsl @ ''repo''))\<rparr>\<rparr>))))
       = Continue"
    by code_simp
  then have h4: "invoke_script (setup_windows_ps1 sample_externals) ?a
                   = (Continue, snd (invoke_script (setup_windows_ps1 sample_externals) ?a))"
    by (simp add: g prod_eq_iff)
  have h5: "\<not> Get_Command sample_externals ''cargo'' (snd (invoke_script (setup_windows_ps1 sample_externals) ?a))
            \<or> \<not> Get_Command sample_externals ''dlltool'' (snd (invoke_script (setup_windows_ps1 sample_externals) ?a))"
    by (simp add: g)
  show ?thesis
    using missing_after_setup_halts [OF h1 h2 h3 h4 h5, of "run_stage sample_externals"
            "\<lparr>release = False, skip_build = False, verbose = False\<rparr>"] g h3 c
    by (simp add: dev_ps1_def)
qed

text \<open>
  C10. Take two runs in which a tool was missing, the setup script was there and ran to
  its end. If the probes after setup give the same answers in both runs, the prerequisite
  stage ends the same way in both: it continues when both tools are found and ends the
  script with exit code 1 otherwise. Nothing is assumed about \<^verbatim>\<open>$LASTEXITCODE\<close> as the
  two setup runs left it, and changing it does not change the outcome of the re-check.
\<close>

theorem recheck_independent_of_exit_status:
  assumes "\<not> Get_Command ext1 ''cargo'' b1 \<or> \<not> Get_Command ext1 ''dlltool'' b1"
      and "Test_Path (setupScript root1) b1"
      and "invoke_script setup1 (log_event (EvSetup (setupScript root1))
             (announce_missing (Get_Command ext1 ''cargo'' b1) (Get_Command ext1 ''dlltool'' b1) b1))
           = (Continue, s1)"
      and "\<not> Get_Command ext2 ''cargo'' b2 \<or> \<not> Get_Command ext2 ''dlltool'' b2"
      and "Test_Path (setupScript root2) b2"
      and "invoke_script setup2 (log_event (EvSetup (setupScript root2))
             (announce_missing (Get_Command ext2 ''cargo'' b2) (Get_Command ext2 ''dlltool'' b2) b2))
           = (Continue, s2)"
      and "Get_Command ext1 ''cargo'' s1 = Get_Command ext2 ''cargo'' s2"
      and "Get_Command ext1 ''dlltool'' s1 = Get_Command ext2 ''dlltool'' s2"
  shows "fst (check_prerequisites ext1 setup1 root1 b1) = fst (check_prerequisites ext2 setup2 root2 b2)
       \<and> (fst (check_prerequisites ext1 setup1 root1 b1) = Continue
            \<or> fst (check_prerequisites ext1 setup1 root1 b1) = Exit 1)
       \<and> (fst (check_prerequisites ext1 setup1 root1 b1) = Continue
            \<longleftrightarrow> Get_Command ext1 ''cargo'' s1 \<and> Get_Command ext1 ''dlltool'' s1)
       \<and> fst (recheck ext1 (s1\<lparr>last_exit := c\<rparr>)) = fst (recheck ext1 s1)"
proof -
  have 1: "check_prerequisites ext1 setup1 root1 b1 = recheck ext1 s1"
    using assms(1,2,3) by (simp add: check_prerequisites_missing)
  have 2: "check_prerequisites ext2 setup2 root2 b2 = recheck ext2 s2"
    using assms(4,5,6) by (simp add: check_prerequisites_missing)
  show ?thesis
    unfolding 1 2 using assms(7,8) by (simp add: recheck_cases Get_Command_def)
qed



text \<open>
  In the example one installer ends with \<^verbatim>\<open>exit 0\<close> and the other with \<^verbatim>\<open>exit 7\<close>; both
  make the tools available, and both runs continue.
\<close>

theorem recheck_independent_of_exit_status_witness:
  "\<not> Get_Command (sample_externals\<lparr>get_command := (\<lambda>name path m. files m name)\<rparr>) ''cargo''
        (sample_session\<lparr>mach := sample_machine\<lparr>files := (\<lambda>p. p = setupScript (''C:'' @ bsl @ ''repo''))\<rparr>\<rparr>)
   \<and> \<not> Get_Command (sample_externals\<lparr>get_command := (\<lambda>name path m. files m name)\<rparr>) ''dlltool''
        (sample_session\<lparr>mach := sample_machine\<lparr>files := (\<lambda>p. p = setupScript (''C:'' @ bsl @ ''repo''))\<rparr>\<rparr>)
   \<and> Test_Path (setupScript (''C:'' @ bsl @ ''repo''))
        (sample_session\<lparr>mach := sample_machine\<lparr>files := (\<lambda>p. p = setupScript (''C:'' @ bsl @ ''repo''))\<rparr>\<rparr>)
   \<and> fst (check_prerequisites (sample_externals\<lparr>get_command := (\<lambda>name path m. files m name)\<rparr>)
          (\<lambda>s. (Exit 0, s\<lparr>mach := (mach s)\<lparr>files := (\<lambda>p. True)\<rparr>\<rparr>)) (''C:'' @ bsl @ ''repo'')
          (sample_session\<lparr>mach := sample_machine\<lparr>files := (\<lambda>p. p = setupScript (''C:'' @ bsl @ ''repo''))\<rparr>\<rparr>))
       = Continue
   \<and> fst (check_prerequisites (sample_externals\<lparr>get_command := (\<lambda>name path m. files m name)\<rparr>)
          (\<lambda>s. (Exit 7, s\<lparr>mach := (mach s)\<lparr>files := (\<lambda>p. True)\<rparr>\<rparr>)) (''C:'' @ bsl @ ''repo'')
          (sample_session\<lparr>mach := sample_machine\<lparr>files := (\<lambda>p. p = setupScript (''C:'' @ bsl @ ''repo''))\<rparr>\<rparr>))
       = Continue"
proof -
  let ?ext = "sample_externals\<lparr>get_command := (\<lambda>name path m. files m name)\<rparr>"
  let ?s = "sample_session\<lparr>mach := sample_machine\<lparr>files := (\<lambda>p. p = setupScript (''C:'' @ bsl @ ''repo''))\<rparr>\<rparr>"
  let ?a = "log_event (EvSetup (setupScript (''C:'' @ bsl @ ''repo'')))
              (announce_missing (Get_Command ?ext ''cargo'' ?s) (Get_Command ?ext ''dlltool'' ?s) ?s)"
  let ?i0 = "\<lambda>s. (Exit 0, s\<lparr>mach := (mach s)\<lparr>files := (\<lambda>p. True)\<rparr>\<rparr>)"
  let ?i7 = "\<lambda>s. (Exit 7, s\<lparr>mach := (mach s)\<lparr>files := (\<lambda>p. True)\<rparr>\<rparr>)"
  have m': "\<not> Get_Command ?ext ''cargo'' ?s \<and> \<not> Get_Command ?ext ''dlltool'' ?s"
    by (simp add: Get_Command_def setupScript_def Join_Path_def)
  then have m: "\<not> Get_Command ?ext ''cargo'' ?s \<or> \<not> Get_Command ?ext ''dlltool'' ?s"
    by blast
  have e: "Test_Path (setupScript (''C:'' @ bsl @ ''repo'')) ?s"
    by (simp add: Test_Path_def)
  have r0: "invoke_script ?i0 ?a = (Continue, snd (invoke_script ?i0 ?a))"
    by (simp add: invoke_script_def)
  have r7: "invoke_script ?i7 ?a = (Continue, snd (invoke_script ?i7 ?a))"
    by (simp add: invoke_script_def)
  have p: "\<And>name. Get_Command ?ext name (snd (invoke_script ?i0 ?a))"
          "\<And>name. Get_Command ?ext name (snd (invoke_script ?i7 ?a))"
    by (simp_all add: invoke_script_def Get_Command_def)
  have q1: "Get_Command ?ext ''cargo'' (snd (invoke_script ?i0 ?a))
              = Get_Command ?ext ''cargo'' (snd (invoke_script ?i7 ?a))"
    using p by blast
  have q2: "Get_Command ?ext ''dlltool'' (snd (invoke_script ?i0 ?a))
              = Get_Command ?ext ''dlltool'' (snd (invoke_script ?i7 ?a))"
    using p by blast
  note both = recheck_independent_of_exit_status [OF m e r0 m e r7 q1 q2, of 0]
  from both p(1) have c0: "fst (check_prerequisites ?ext ?i0 (''C:'' @ bsl @ ''repo'') ?s) = Continue"
    by blast
  from both c0 have c7: "fst (check_prerequisites ?ext ?i7 (''C:'' @ bsl @ ''repo'') ?s) = Continue"
    by metis
  show ?thesis
    using m' e c0 c7 by blast
qed

section \<open>Launching\<close>

lemma launch_cases:
  "launch ext binary verb s =
     (let s1 = s\<lparr>console := console s @ [[], ''Starting CodexBar...''],
                  trace := trace s @ [EvLaunch binary (launch_args verb)]\<rparr>
      in case native ext binary (launch_args verb) (location s) (env_path s) (mach s) of
           None \<Rightarrow> (Throw, s1)
         | Some (code, out, m) \<Rightarrow> (Continue, s1\<lparr>last_exit := code, mach := m\<rparr>))"
  by (simp add: launch_def run_native_def Write_Host_def log_event_def Let_def split: option.splits)

text \<open>
  C4. For every binary path, a verbose launch starts the binary with exactly the two
  arguments \<^verbatim>\<open>-v\<close> and \<^verbatim>\<open>menubar\<close>, in this order, and a launch that is not verbose with
  exactly the one argument \<^verbatim>\<open>menubar\<close>: the launch is traced with this vector, and the
  outcome of the launch is that of the binary started with this vector.
\<close>

theorem launch_argument_vector:
  "launch_args True = [''-v'', ''menubar'']
   \<and> launch_args False = [''menubar'']
   \<and> trace (snd (launch ext p True s)) = trace s @ [EvLaunch p [''-v'', ''menubar'']]
   \<and> trace (snd (launch ext p False s)) = trace s @ [EvLaunch p [''menubar'']]
   \<and> fst (launch ext p True s) =
        (case native ext p [''-v'', ''menubar''] (location s) (env_path s) (mach s) of
           None \<Rightarrow> Throw | Some r \<Rightarrow> Continue)
   \<and> fst (launch ext p False s) =
        (case native ext p [''menubar''] (location s) (env_path s) (mach s) of
           None \<Rightarrow> Throw | Some r \<Rightarrow> Continue)"
  by (simp add: launch_cases launch_args_def Let_def split: option.splits)

section \<open>Finding the binary\<close>

lemma Join_Path_nonempty: "child \<noteq> [] \<Longrightarrow> Join_Path parent child \<noteq> []"
  by (simp add: Join_Path_def)

lemma candidates_nonempty:
  "candidates RustDir rel = [A, B] \<Longrightarrow> A \<noteq> [] \<and> B \<noteq> []"
  by (auto simp: candidates_def Let_def Join_Path_def split: if_splits)

lemma Test_Path_log [simp]: "Test_Path p (log_event e s) = Test_Path p s"
  by (simp add: Test_Path_def log_event_def)

text \<open>
  C1 (as amended). The copy of the script that keeps a candidate list has two candidates
  per profile, \<^verbatim>\<open>target\<profile>\codexbar.exe\<close> and
  \<^verbatim>\<open>target\x86_64-pc-windows-gnu\<profile>\codexbar.exe\<close>. With these as \<open>A\<close> and \<open>B\<close>: when
  \<open>A\<close> exists it is the binary that is launched; when only \<open>B\<close> exists, \<open>B\<close> is; when
  neither exists the script ends with exit code 1 after printing both \<open>A\<close> and \<open>B\<close>, and
  nothing is launched. The script \<^verbatim>\<open>dev.ps1\<close> checks one path per profile, the first of
  the two: it launches it when it exists, and otherwise ends with exit code 1 after
  printing that one path.
\<close>

theorem resolve_first_existing:
  assumes "candidates RustDir (release cfg) = [A, B]"
  shows "(Test_Path A s \<longrightarrow>
            resolve_binary RustDir (release cfg) s = Some A
            \<and> run_stage_candidates ext cfg RustDir s
                = launch ext A (verbose cfg) (log_event (EvResolve [A, B]) s))
       \<and> (\<not> Test_Path A s \<and> Test_Path B s \<longrightarrow>
            resolve_binary RustDir (release cfg) s = Some B
            \<and> run_stage_candidates ext cfg RustDir s
                = launch ext B (verbose cfg) (log_event (EvResolve [A, B]) s))
       \<and> (\<not> Test_Path A s \<and> \<not> Test_Path B s \<longrightarrow>
            resolve_binary RustDir (release cfg) s = None
            \<and> fst (run_stage_candidates ext cfg RustDir s) = Exit 1
            \<and> console (snd (run_stage_candidates ext cfg RustDir s))
                = console s @ [''ERROR: Binary not found. Searched:'', ''  '' @ A, ''  '' @ B,
                               ''Run without -SkipBuild to build first.'']
            \<and> trace (snd (run_stage_candidates ext cfg RustDir s)) = trace s @ [EvResolve [A, B]])
       \<and> (Test_Path (binary_path RustDir (release cfg)) s \<longrightarrow>
            run_stage ext cfg RustDir s
              = launch ext (binary_path RustDir (release cfg)) (verbose cfg)
                  (log_event (EvResolve [binary_path RustDir (release cfg)]) s))
       \<and> (\<not> Test_Path (binary_path RustDir (release cfg)) s \<longrightarrow>
            fst (run_stage ext cfg RustDir s) = Exit 1
            \<and> console (snd (run_stage ext cfg RustDir s))
                = console s @ [''ERROR: Binary not found at '' @ binary_path RustDir (release cfg),
                               ''Run without -SkipBuild to build first.'']
            \<and> trace (snd (run_stage ext cfg RustDir s))
                = trace s @ [EvResolve [binary_path RustDir (release cfg)]])"
proof -
  have ne: "A \<noteq> []" "B \<noteq> []"
    using candidates_nonempty [OF assms] by simp_all
  show ?thesis
    using ne
    by (simp add: run_stage_candidates_def run_stage_def resolve_binary_def select_first_def assms
          Write_Host_def log_event_def Let_def Test_Path_def del: append.simps)
qed


theorem resolve_first_existing_witness:
  "candidates (''C:'' @ bsl @ ''repo'' @ bsl @ ''rust'') (release \<lparr>release = False, skip_build = True, verbose = False\<rparr>)
     = [''C:'' @ bsl @ ''repo'' @ bsl @ ''rust'' @ bsl @ ''target'' @ bsl @ ''debug'' @ bsl @ ''codexbar.exe'',
        ''C:'' @ bsl @ ''repo'' @ bsl @ ''rust'' @ bsl @ ''target'' @ bsl @ ''x86_64-pc-windows-gnu'' @ bsl @ ''debug'' @ bsl @ ''codexbar.exe'']
   \<and> resolve_binary (''C:'' @ bsl @ ''repo'' @ bsl @ ''rust'') False
        (sample_session\<lparr>mach := sample_machine\<lparr>files := (\<lambda>p. True)\<rparr>\<rparr>)
       = Some (''C:'' @ bsl @ ''repo'' @ bsl @ ''rust'' @ bsl @ ''target'' @ bsl @ ''debug'' @ bsl @ ''codexbar.exe'')
   \<and> resolve_binary (''C:'' @ bsl @ ''repo'' @ bsl @ ''rust'') False
        (sample_session\<lparr>mach := sample_machine\<lparr>files := (\<lambda>p. p =
           ''C:'' @ bsl @ ''repo'' @ bsl @ ''rust'' @ bsl @ ''target'' @ bsl @ ''x86_64-pc-windows-gnu'' @ bsl @ ''debug'' @ bsl @ ''codexbar.exe'')\<rparr>\<rparr>)
       = Some (''C:'' @ bsl @ ''repo'' @ bsl @ ''rust'' @ bsl @ ''target'' @ bsl @ ''x86_64-pc-windows-gnu'' @ bsl @ ''debug'' @ bsl @ ''codexbar.exe'')
   \<and> fst (run_stage_candidates sample_externals \<lparr>release = False, skip_build = True, verbose = False\<rparr>
          (''C:'' @ bsl @ ''repo'' @ bsl @ ''rust'') sample_session) = Exit 1
   \<and> console (snd (run_stage_candidates sample_externals \<lparr>release = False, skip_build = True, verbose = False\<rparr>
          (''C:'' @ bsl @ ''repo'' @ bsl @ ''rust'') sample_session))
       = [''ERROR: Binary not found. Searched:'',
          ''  C:'' @ bsl @ ''repo'' @ bsl @ ''rust'' @ bsl @ ''target'' @ bsl @ ''debug'' @ bsl @ ''codexbar.exe'',
          ''  C:'' @ bsl @ ''repo'' @ bsl @ ''rust'' @ bsl @ ''target'' @ bsl @ ''x86_64-pc-windows-gnu'' @ bsl @ ''debug'' @ bsl @ ''codexbar.exe'',
          ''Run without -SkipBuild to build first.'']
   \<and> fst (run_stage sample_externals \<lparr>release = False, skip_build = True, verbose = False\<rparr>
          (''C:'' @ bsl @ ''repo'' @ bsl @ ''rust'') sample_session) = Exit 1"
proof -
  let ?R = "''C:'' @ bsl @ ''repo'' @ bsl @ ''rust''"
  let ?A = "''C:'' @ bsl @ ''repo'' @ bsl @ ''rust'' @ bsl @ ''target'' @ bsl @ ''debug'' @ bsl @ ''codexbar.exe''"
  let ?B = "''C:'' @ bsl @ ''repo'' @ bsl @ ''rust'' @ bsl @ ''target'' @ bsl @ ''x86_64-pc-windows-gnu'' @ bsl @ ''debug'' @ bsl @ ''codexbar.exe''"
  let ?cfg = "\<lparr>release = False, skip_build = True, verbose = False\<rparr>"
  let ?both = "sample_session\<lparr>mach := sample_machine\<lparr>files := (\<lambda>p. True)\<rparr>\<rparr>"
  let ?onlyB = "sample_session\<lparr>mach := sample_machine\<lparr>files := (\<lambda>p. p = ?B)\<rparr>\<rparr>"
  have c: "candidates ?R (release ?cfg) = [?A, ?B]"
    by (simp add: candidates_def Join_Path_def)
  have r: "release ?cfg = False" by simp
  have b1: "Test_Path ?A ?both"
    by (simp add: Test_Path_def)
  have b2: "\<not> Test_Path ?A ?onlyB \<and> Test_Path ?B ?onlyB"
    by (simp add: Test_Path_def)
  have b3: "\<not> Test_Path ?A sample_session \<and> \<not> Test_Path ?B sample_session"
    by (simp add: Test_Path_def sample_session_def sample_machine_def)
  have b4: "\<not> Test_Path (binary_path ?R (release ?cfg)) sample_session"
    by (simp add: Test_Path_def sample_session_def sample_machine_def)
  have k: "console sample_session = []"
    by (simp add: sample_session_def)
  have 1: "resolve_binary ?R (release ?cfg) ?both = Some ?A"
    using resolve_first_existing [OF c, of ?both sample_externals] b1 by blast
  have 2: "resolve_binary ?R (release ?cfg) ?onlyB = Some ?B"
    using resolve_first_existing [OF c, of ?onlyB sample_externals] b2 by blast
  have 3: "fst (run_stage_candidates sample_externals ?cfg ?R sample_session) = Exit 1
           \<and> console (snd (run_stage_candidates sample_externals ?cfg ?R sample_session))
               = console sample_session @ [''ERROR: Binary not found. Searched:'', ''  '' @ ?A, ''  '' @ ?B,
                               ''Run without -SkipBuild to build first.'']
           \<and> fst (run_stage sample_externals ?cfg ?R sample_session) = Exit 1"
    using resolve_first_existing [OF c, of sample_session sample_externals] b3 b4 by blast
  show ?thesis
    using c 1 2 3 by (simp add: k)
qed

text \<open>
  In \<^verbatim>\<open>dev.ps1\<close> the second candidate is never looked at: with only
  \<^verbatim>\<open>target\x86_64-pc-windows-gnu\debug\codexbar.exe\<close> on disk the debug profile ends with
  exit code 1, and the message names only \<^verbatim>\<open>target\debug\codexbar.exe\<close>.
\<close>

theorem resolve_single_path_counterexample:
  "Test_Path (''C:'' @ bsl @ ''repo'' @ bsl @ ''rust'' @ bsl @ ''target'' @ bsl @ ''x86_64-pc-windows-gnu'' @ bsl @ ''debug'' @ bsl @ ''codexbar.exe'')
     (sample_session\<lparr>mach := sample_machine\<lparr>files := (\<lambda>p. p =
        ''C:'' @ bsl @ ''repo'' @ bsl @ ''rust'' @ bsl @ ''target'' @ bsl @ ''x86_64-pc-windows-gnu'' @ bsl @ ''debug'' @ bsl @ ''codexbar.exe'')\<rparr>\<rparr>)
   \<and> fst (run_stage sample_externals \<lparr>release = False, skip_build = True, verbose = False\<rparr>
          (''C:'' @ bsl @ ''repo'' @ bsl @ ''rust'')
          (sample_session\<lparr>mach := sample_machine\<lparr>files := (\<lambda>p. p =
             ''C:'' @ bsl @ ''repo'' @ bsl @ ''rust'' @ bsl @ ''target'' @ bsl @ ''x86_64-pc-windows-gnu'' @ bsl @ ''debug'' @ bsl @ ''codexbar.exe'')\<rparr>\<rparr>))
       = Exit 1
   \<and> console (snd (run_stage sample_externals \<lparr>release = False, skip_build = True, verbose = False\<rparr>
          (''C:'' @ bsl @ ''repo'' @ bsl @ ''rust'')
          (sample_session\<lparr>mach := sample_machine\<lparr>files := (\<lambda>p. p =
             ''C:'' @ bsl @ ''repo'' @ bsl @ ''rust'' @ bsl @ ''target'' @ bsl @ ''x86_64-pc-windows-gnu'' @ bsl @ ''debug'' @ bsl @ ''codexbar.exe'')\<rparr>\<rparr>)))
       = [''ERROR: Binary not found at C:'' @ bsl @ ''repo'' @ bsl @ ''rust'' @ bsl @ ''target'' @ bsl @ ''debug'' @ bsl @ ''codexbar.exe'',
          ''Run without -SkipBuild to build first.'']"
  by code_simp

section \<open>Downloads of the setup script\<close>

lemma Add_ToUserPath_frame:
  "trace (snd (Add_ToUserPath ext d s)) = trace s
   \<and> files (mach (snd (Add_ToUserPath ext d s))) = files (mach s)"
  by (simp add: Add_ToUserPath_def user_add_def session_add_def andthen_def Write_Host_def Let_def
           split: option.splits bool.splits)

lemma Add_ToUserPath_trace [simp]: "trace (snd (Add_ToUserPath ext d s)) = trace s"
  by (simp add: Add_ToUserPath_frame)

lemma Add_ToUserPath_files [simp]: "files (mach (snd (Add_ToUserPath ext d s))) = files (mach s)"
  by (simp add: Add_ToUserPath_frame)

lemma Add_ToUserPath_plain_status:
  "wild_free d \<Longrightarrow> \<forall>v m. set_environment ext v m \<Longrightarrow> fst (Add_ToUserPath ext d s) = Continue"
  by (auto simp: Add_ToUserPath_def user_add_def session_add_def ps_notlike_contains Let_def
              Write_Host_def
           simp del: append.simps split: bool.splits)

lemma wild_free_MinGWBin: "wild_free MinGWBin"
  by (simp add: wild_free_def MinGWBin_def MinGWDir_def)

lemma wild_free_append: "wild_free (a @ b) = (wild_free a \<and> wild_free b)"
  by (simp add: wild_free_def)

lemma wild_free_CargoBin: "wild_free (userprofile s) \<Longrightarrow> wild_free (CargoBin s)"
  by (simp add: CargoBin_def wild_free_append) (simp add: wild_free_def)

lemma events_since_append [simp]:
  "trace s' = trace s @ evs \<Longrightarrow> events_since s s' = evs"
  by (simp add: events_since_def)

lemma install_mingw_run:
  assumes "\<not> Get_Command ext ''dlltool'' s" and "\<not> Test_Path (MinGWBin @ bsl @ ''dlltool.exe'') s"
  shows "install_mingw ext s =
     (let zipPath = temp_dir s @ bsl @ WinLibsZip;
          dl = (if Test_Path zipPath s then [] else [EvDownload WinLibsUrl zipPath]);
          m1 = (if Test_Path zipPath s then mach s else put_file zipPath (mach s))
      in
      if \<not> Test_Path zipPath s \<and> \<not> web_request ext WinLibsUrl (mach s)
      then (Throw, s\<lparr>trace := trace s @ dl\<rparr>)
      else
        (case expand_archive ext zipPath (''C:'' @ bsl) m1 of
           None \<Rightarrow> (Throw, s\<lparr>mach := m1, trace := trace s @ dl @ [EvExpand zipPath (''C:'' @ bsl)]\<rparr>)
         | Some m2 \<Rightarrow>
             Add_ToUserPath ext MinGWBin
               (s\<lparr>mach := (if files m2 zipPath \<and> remove_item ext zipPath m2
                           then drop_file zipPath m2 else m2),
                  trace := trace s @ dl @ [EvExpand zipPath (''C:'' @ bsl), EvRemove zipPath]\<rparr>)))"
  using assms
  by (auto simp: install_mingw_def Invoke_WebRequest_def Expand_Archive_def Remove_Item_def
        log_event_def Test_Path_def Let_def split: option.splits
        intro!: arg_cong [where f = "Add_ToUserPath ext MinGWBin"] session.equality)

lemma install_rust_run:
  assumes "\<not> Get_Command ext ''rustup'' s"
  shows "install_rust ext s =
     (let rustupInit = temp_dir s @ bsl @ ''rustup-init.exe'';
          uri = ''https://win.rustup.rs/x86_64'';
          args = [''-y'', ''--default-toolchain'', ''stable'', ''--default-host'', ''x86_64-pc-windows-gnu''];
          m1 = put_file rustupInit (mach s)
      in
      if \<not> web_request ext uri (mach s) then (Throw, s\<lparr>trace := trace s @ [EvDownload uri rustupInit]\<rparr>)
      else
        (case native ext rustupInit args (location s) (env_path s) m1 of
           None \<Rightarrow> (Throw, s\<lparr>mach := m1,
                              trace := trace s @ [EvDownload uri rustupInit, EvRun rustupInit args]\<rparr>)
         | Some (code, out, m2) \<Rightarrow>
             Add_ToUserPath ext (CargoBin s)
               (s\<lparr>last_exit := code,
                  mach := (if files m2 rustupInit \<and> remove_item ext rustupInit m2
                           then drop_file rustupInit m2 else m2),
                  trace := trace s @ [EvDownload uri rustupInit, EvRun rustupInit args, EvRemove rustupInit]\<rparr>)))"
  using assms
  by (auto simp: install_rust_def Invoke_WebRequest_def run_logged_def run_native_def Remove_Item_def
        log_event_def Test_Path_def CargoBin_def Let_def split: option.splits
        intro!: arg_cong2 [where f = "Add_ToUserPath ext"] session.equality)

lemma install_rust_present:
  "Get_Command ext ''rustup'' s \<Longrightarrow>
   trace (snd (install_rust ext s)) = trace s @ [EvRun ''rustc'' [''--version'']]"
  by (simp add: install_rust_def run_logged_def run_native_def log_event_def split: option.splits)

lemma install_mingw_downloads:
  "downloads (events_since s (snd (install_mingw ext s)))
     = (if \<not> Get_Command ext ''dlltool'' s \<and> \<not> Test_Path (MinGWBin @ bsl @ ''dlltool.exe'') s
           \<and> \<not> Test_Path (temp_dir s @ bsl @ WinLibsZip) s
        then [(WinLibsUrl, temp_dir s @ bsl @ WinLibsZip)] else [])"
proof (cases "\<not> Get_Command ext ''dlltool'' s \<and> \<not> Test_Path (MinGWBin @ bsl @ ''dlltool.exe'') s")
  case True
  then have "\<exists>evs. trace (snd (install_mingw ext s)) = trace s @ evs
      \<and> downloads evs = (if \<not> Test_Path (temp_dir s @ bsl @ WinLibsZip) s
                          then [(WinLibsUrl, temp_dir s @ bsl @ WinLibsZip)] else [])"
    by (simp add: install_mingw_run Let_def split: option.splits)
  then show ?thesis using True by auto
next
  case False
  then have "trace (snd (install_mingw ext s)) = trace s @ []"
    by (auto simp: install_mingw_def)
  then have "events_since s (snd (install_mingw ext s)) = []"
    by (rule events_since_append)
  then show ?thesis using False by auto
qed

lemma install_rust_downloads:
  "downloads (events_since s (snd (install_rust ext s)))
     = (if Get_Command ext ''rustup'' s then []
        else [(''https://win.rustup.rs/x86_64'', temp_dir s @ bsl @ ''rustup-init.exe'')])"
proof (cases "Get_Command ext ''rustup'' s")
  case True
  then show ?thesis by (simp add: install_rust_present)
next
  case False
  then have "\<exists>evs. trace (snd (install_rust ext s)) = trace s @ evs
      \<and> downloads evs = [(''https://win.rustup.rs/x86_64'', temp_dir s @ bsl @ ''rustup-init.exe'')]"
    by (simp add: install_rust_run Let_def split: option.splits)
  then show ?thesis using False by auto
qed

text \<open>
  C7 (as amended). The step that installs MinGW-w64, when it is entered (\<^verbatim>\<open>dlltool\<close> not
  found, no \<^verbatim>\<open>dlltool.exe\<close> under \<^verbatim>\<open>C:\mingw64\bin\<close>), downloads the WinLibs archive only when
  the archive is not already in the temporary directory, and works on a cached archive as
  it is. The step that installs Rust, when it is entered (\<^verbatim>\<open>rustup\<close> not found), downloads
  \<^verbatim>\<open>rustup-init.exe\<close> whether or not the file is already in the temporary directory. Each
  step then uses the file (the archive is extracted to \<^verbatim>\<open>C:\\<close>, the installer is run) and,
  only when that use raised no error, applies \<^verbatim>\<open>Remove-Item\<close> to the file as its next
  action, before the directory is registered on the paths; when the use raises an error
  the step ends there and the file stays. The removal never stops the step: when the
  file is no longer there or its deletion is refused the machine is left as the use left
  it, and otherwise the file is gone.

  The first two parts give each step in full, as the outcome and the state it ends in,
  for whatever the outside world does. The rest reads them: which downloads a step
  makes, and what holds at the end of a step whose use of the file succeeded.
\<close>

theorem download_cache_and_cleanup:
  "(\<not> Get_Command ext ''dlltool'' s \<and> \<not> Test_Path (MinGWBin @ bsl @ ''dlltool.exe'') s \<longrightarrow>
      install_mingw ext s =
        (let zipPath = temp_dir s @ bsl @ WinLibsZip;
             dl = (if Test_Path zipPath s then [] else [EvDownload WinLibsUrl zipPath]);
             m1 = (if Test_Path zipPath s then mach s else put_file zipPath (mach s))
         in
         if \<not> Test_Path zipPath s \<and> \<not> web_request ext WinLibsUrl (mach s)
         then (Throw, s\<lparr>trace := trace s @ dl\<rparr>)
         else
           (case expand_archive ext zipPath (''C:'' @ bsl) m1 of
              None \<Rightarrow> (Throw, s\<lparr>mach := m1, trace := trace s @ dl @ [EvExpand zipPath (''C:'' @ bsl)]\<rparr>)
            | Some m2 \<Rightarrow>
                Add_ToUserPath ext MinGWBin
                  (s\<lparr>mach := (if files m2 zipPath \<and> remove_item ext zipPath m2
                              then drop_file zipPath m2 else m2),
                     trace := trace s @ dl @ [EvExpand zipPath (''C:'' @ bsl), EvRemove zipPath]\<rparr>))))
   \<and> (\<not> Get_Command ext ''rustup'' s \<longrightarrow>
      install_rust ext s =
        (let rustupInit = temp_dir s @ bsl @ ''rustup-init.exe'';
             uri = ''https://win.rustup.rs/x86_64'';
             args = [''-y'', ''--default-toolchain'', ''stable'', ''--default-host'', ''x86_64-pc-windows-gnu''];
             m1 = put_file rustupInit (mach s)
         in
         if \<not> web_request ext uri (mach s)
         then (Throw, s\<lparr>trace := trace s @ [EvDownload uri rustupInit]\<rparr>)
         else
           (case native ext rustupInit args (location s) (env_path s) m1 of
              None \<Rightarrow> (Throw, s\<lparr>mach := m1,
                                 trace := trace s @ [EvDownload uri rustupInit, EvRun rustupInit args]\<rparr>)
            | Some (code, out, m2) \<Rightarrow>
                Add_ToUserPath ext (CargoBin s)
                  (s\<lparr>last_exit := code,
                     mach := (if files m2 rustupInit \<and> remove_item ext rustupInit m2
                              then drop_file rustupInit m2 else m2),
                     trace := trace s @ [EvDownload uri rustupInit, EvRun rustupInit args,
                                         EvRemove rustupInit]\<rparr>))))
   \<and> downloads (events_since s (snd (install_mingw ext s)))
       = (if \<not> Get_Command ext ''dlltool'' s \<and> \<not> Test_Path (MinGWBin @ bsl @ ''dlltool.exe'') s
             \<and> \<not> Test_Path (temp_dir s @ bsl @ WinLibsZip) s
          then [(WinLibsUrl, temp_dir s @ bsl @ WinLibsZip)] else [])
   \<and> downloads (events_since s (snd (install_rust ext s)))
       = (if Get_Command ext ''rustup'' s then []
          else [(''https://win.rustup.rs/x86_64'', temp_dir s @ bsl @ ''rustup-init.exe'')])
   \<and> (\<not> Get_Command ext ''dlltool'' s \<and> \<not> Test_Path (MinGWBin @ bsl @ ''dlltool.exe'') s
        \<and> (Test_Path (temp_dir s @ bsl @ WinLibsZip) s \<or> web_request ext WinLibsUrl (mach s))
        \<and> expand_archive ext (temp_dir s @ bsl @ WinLibsZip) (''C:'' @ bsl)
             (if Test_Path (temp_dir s @ bsl @ WinLibsZip) s then mach s
              else put_file (temp_dir s @ bsl @ WinLibsZip) (mach s)) = Some m2 \<longrightarrow>
         events_since s (snd (install_mingw ext s))
           = (if Test_Path (temp_dir s @ bsl @ WinLibsZip) s then []
              else [EvDownload WinLibsUrl (temp_dir s @ bsl @ WinLibsZip)])
             @ [EvExpand (temp_dir s @ bsl @ WinLibsZip) (''C:'' @ bsl),
                EvRemove (temp_dir s @ bsl @ WinLibsZip)]
         \<and> Test_Path (temp_dir s @ bsl @ WinLibsZip) (snd (install_mingw ext s))
             = (files m2 (temp_dir s @ bsl @ WinLibsZip)
                \<and> \<not> remove_item ext (temp_dir s @ bsl @ WinLibsZip) m2)
         \<and> ((\<forall>v m. set_environment ext v m) \<longrightarrow> fst (install_mingw ext s) = Continue))
   \<and> (\<not> Get_Command ext ''dlltool'' s \<and> \<not> Test_Path (MinGWBin @ bsl @ ''dlltool.exe'') s
        \<and> (Test_Path (temp_dir s @ bsl @ WinLibsZip) s \<or> web_request ext WinLibsUrl (mach s))
        \<and> expand_archive ext (temp_dir s @ bsl @ WinLibsZip) (''C:'' @ bsl)
             (if Test_Path (temp_dir s @ bsl @ WinLibsZip) s then mach s
              else put_file (temp_dir s @ bsl @ WinLibsZip) (mach s)) = None \<longrightarrow>
         fst (install_mingw ext s) = Throw
         \<and> events_since s (snd (install_mingw ext s))
           = (if Test_Path (temp_dir s @ bsl @ WinLibsZip) s then []
              else [EvDownload WinLibsUrl (temp_dir s @ bsl @ WinLibsZip)])
             @ [EvExpand (temp_dir s @ bsl @ WinLibsZip) (''C:'' @ bsl)]
         \<and> Test_Path (temp_dir s @ bsl @ WinLibsZip) (snd (install_mingw ext s)))
   \<and> (\<not> Get_Command ext ''rustup'' s \<and> web_request ext ''https://win.rustup.rs/x86_64'' (mach s)
        \<and> native ext (temp_dir s @ bsl @ ''rustup-init.exe'')
             [''-y'', ''--default-toolchain'', ''stable'', ''--default-host'', ''x86_64-pc-windows-gnu'']
             (location s) (env_path s) (put_file (temp_dir s @ bsl @ ''rustup-init.exe'') (mach s))
             = Some (code, out, m3) \<longrightarrow>
         events_since s (snd (install_rust ext s))
           = [EvDownload ''https://win.rustup.rs/x86_64'' (temp_dir s @ bsl @ ''rustup-init.exe''),
              EvRun (temp_dir s @ bsl @ ''rustup-init.exe'')
                [''-y'', ''--default-toolchain'', ''stable'', ''--default-host'', ''x86_64-pc-windows-gnu''],
              EvRemove (temp_dir s @ bsl @ ''rustup-init.exe'')]
         \<and> Test_Path (temp_dir s @ bsl @ ''rustup-init.exe'') (snd (install_rust ext s))
             = (files m3 (temp_dir s @ bsl @ ''rustup-init.exe'')
                \<and> \<not> remove_item ext (temp_dir s @ bsl @ ''rustup-init.exe'') m3)
         \<and> (wild_free (userprofile s) \<and> (\<forall>v m. set_environment ext v m) \<longrightarrow>
               fst (install_rust ext s) = Continue))
   \<and> (\<not> Get_Command ext ''rustup'' s \<and> web_request ext ''https://win.rustup.rs/x86_64'' (mach s)
        \<and> native ext (temp_dir s @ bsl @ ''rustup-init.exe'')
             [''-y'', ''--default-toolchain'', ''stable'', ''--default-host'', ''x86_64-pc-windows-gnu'']
             (location s) (env_path s) (put_file (temp_dir s @ bsl @ ''rustup-init.exe'') (mach s))
             = None \<longrightarrow>
         fst (install_rust ext s) = Throw
         \<and> events_since s (snd (install_rust ext s))
           = [EvDownload ''https://win.rustup.rs/x86_64'' (temp_dir s @ bsl @ ''rustup-init.exe''),
              EvRun (temp_dir s @ bsl @ ''rustup-init.exe'')
                [''-y'', ''--default-toolchain'', ''stable'', ''--default-host'', ''x86_64-pc-windows-gnu'']]
         \<and> Test_Path (temp_dir s @ bsl @ ''rustup-init.exe'') (snd (install_rust ext s)))"
proof (intro conjI)
  show "\<not> Get_Command ext ''dlltool'' s \<and> \<not> Test_Path (MinGWBin @ bsl @ ''dlltool.exe'') s \<longrightarrow>
      install_mingw ext s =
        (let zipPath = temp_dir s @ bsl @ WinLibsZip;
             dl = (if Test_Path zipPath s then [] else [EvDownload WinLibsUrl zipPath]);
             m1 = (if Test_Path zipPath s then mach s else put_file zipPath (mach s))
         in
         if \<not> Test_Path zipPath s \<and> \<not> web_request ext WinLibsUrl (mach s)
         then (Throw, s\<lparr>trace := trace s @ dl\<rparr>)
         else
           (case expand_archive ext zipPath (''C:'' @ bsl) m1 of
              None \<Rightarrow> (Throw, s\<lparr>mach := m1, trace := trace s @ dl @ [EvExpand zipPath (''C:'' @ bsl)]\<rparr>)
            | Some m2 \<Rightarrow>
                Add_ToUserPath ext MinGWBin
                  (s\<lparr>mach := (if files m2 zipPath \<and> remove_item ext zipPath m2
                              then drop_file zipPath m2 else m2),
                     trace := trace s @ dl @ [EvExpand zipPath (''C:'' @ bsl), EvRemove zipPath]\<rparr>)))"
    using install_mingw_run [of ext s] by blast
  show "\<not> Get_Command ext ''rustup'' s \<longrightarrow>
      install_rust ext s =
        (let rustupInit = temp_dir s @ bsl @ ''rustup-init.exe'';
             uri = ''https://win.rustup.rs/x86_64'';
             args = [''-y'', ''--default-toolchain'', ''stable'', ''--default-host'', ''x86_64-pc-windows-gnu''];
             m1 = put_file rustupInit (mach s)
         in
         if \<not> web_request ext uri (mach s)
         then (Throw, s\<lparr>trace := trace s @ [EvDownload uri rustupInit]\<rparr>)
         else
           (case native ext rustupInit args (location s) (env_path s) m1 of
              None \<Rightarrow> (Throw, s\<lparr>mach := m1,
                                 trace := trace s @ [EvDownload uri rustupInit, EvRun rustupInit args]\<rparr>)
            | Some (code, out, m2) \<Rightarrow>
                Add_ToUserPath ext (CargoBin s)
                  (s\<lparr>last_exit := code,
                     mach := (if files m2 rustupInit \<and> remove_item ext rustupInit m2
                              then drop_file rustupInit m2 else m2),
                     trace := trace s @ [EvDownload uri rustupInit, EvRun rustupInit args,
                                         EvRemove rustupInit]\<rparr>)))"
    using install_rust_run [of ext s] by blast
  show "downloads (events_since s (snd (install_mingw ext s)))
       = (if \<not> Get_Command ext ''dlltool'' s \<and> \<not> Test_Path (MinGWBin @ bsl @ ''dlltool.exe'') s
             \<and> \<not> Test_Path (temp_dir s @ bsl @ WinLibsZip) s
          then [(WinLibsUrl, temp_dir s @ bsl @ WinLibsZip)] else [])"
    by (rule install_mingw_downloads)
  show "downloads (events_since s (snd (install_rust ext s)))
       = (if Get_Command ext ''rustup'' s then []
          else [(''https://win.rustup.rs/x86_64'', temp_dir s @ bsl @ ''rustup-init.exe'')])"
    by (rule install_rust_downloads)
  show "\<not> Get_Command ext ''dlltool'' s \<and> \<not> Test_Path (MinGWBin @ bsl @ ''dlltool.exe'') s
        \<and> (Test_Path (temp_dir s @ bsl @ WinLibsZip) s \<or> web_request ext WinLibsUrl (mach s))
        \<and> expand_archive ext (temp_dir s @ bsl @ WinLibsZip) (''C:'' @ bsl)
             (if Test_Path (temp_dir s @ bsl @ WinLibsZip) s then mach s
              else put_file (temp_dir s @ bsl @ WinLibsZip) (mach s)) = Some m2 \<longrightarrow>
         events_since s (snd (install_mingw ext s))
           = (if Test_Path (temp_dir s @ bsl @ WinLibsZip) s then []
              else [EvDownload WinLibsUrl (temp_dir s @ bsl @ WinLibsZip)])
             @ [EvExpand (temp_dir s @ bsl @ WinLibsZip) (''C:'' @ bsl),
                EvRemove (temp_dir s @ bsl @ WinLibsZip)]
         \<and> Test_Path (temp_dir s @ bsl @ WinLibsZip) (snd (install_mingw ext s))
             = (files m2 (temp_dir s @ bsl @ WinLibsZip)
                \<and> \<not> remove_item ext (temp_dir s @ bsl @ WinLibsZip) m2)
         \<and> ((\<forall>v m. set_environment ext v m) \<longrightarrow> fst (install_mingw ext s) = Continue)"
    by (auto simp: install_mingw_run Let_def Test_Path_def drop_file_def
          Add_ToUserPath_plain_status [OF wild_free_MinGWBin])
  show "\<not> Get_Command ext ''dlltool'' s \<and> \<not> Test_Path (MinGWBin @ bsl @ ''dlltool.exe'') s
        \<and> (Test_Path (temp_dir s @ bsl @ WinLibsZip) s \<or> web_request ext WinLibsUrl (mach s))
        \<and> expand_archive ext (temp_dir s @ bsl @ WinLibsZip) (''C:'' @ bsl)
             (if Test_Path (temp_dir s @ bsl @ WinLibsZip) s then mach s
              else put_file (temp_dir s @ bsl @ WinLibsZip) (mach s)) = None \<longrightarrow>
         fst (install_mingw ext s) = Throw
         \<and> events_since s (snd (install_mingw ext s))
           = (if Test_Path (temp_dir s @ bsl @ WinLibsZip) s then []
              else [EvDownload WinLibsUrl (temp_dir s @ bsl @ WinLibsZip)])
             @ [EvExpand (temp_dir s @ bsl @ WinLibsZip) (''C:'' @ bsl)]
         \<and> Test_Path (temp_dir s @ bsl @ WinLibsZip) (snd (install_mingw ext s))"
    by (auto simp: install_mingw_run Let_def Test_Path_def put_file_def)
  show "\<not> Get_Command ext ''rustup'' s \<and> web_request ext ''https://win.rustup.rs/x86_64'' (mach s)
        \<and> native ext (temp_dir s @ bsl @ ''rustup-init.exe'')
             [''-y'', ''--default-toolchain'', ''stable'', ''--default-host'', ''x86_64-pc-windows-gnu'']
             (location s) (env_path s) (put_file (temp_dir s @ bsl @ ''rustup-init.exe'') (mach s))
             = Some (code, out, m3) \<longrightarrow>
         events_since s (snd (install_rust ext s))
           = [EvDownload ''https://win.rustup.rs/x86_64'' (temp_dir s @ bsl @ ''rustup-init.exe''),
              EvRun (temp_dir s @ bsl @ ''rustup-init.exe'')
                [''-y'', ''--default-toolchain'', ''stable'', ''--default-host'', ''x86_64-pc-windows-gnu''],
              EvRemove (temp_dir s @ bsl @ ''rustup-init.exe'')]
         \<and> Test_Path (temp_dir s @ bsl @ ''rustup-init.exe'') (snd (install_rust ext s))
             = (files m3 (temp_dir s @ bsl @ ''rustup-init.exe'')
                \<and> \<not> remove_item ext (temp_dir s @ bsl @ ''rustup-init.exe'') m3)
         \<and> (wild_free (userprofile s) \<and> (\<forall>v m. set_environment ext v m) \<longrightarrow>
               fst (install_rust ext s) = Continue)"
    by (auto simp: install_rust_run Let_def Test_Path_def drop_file_def
          Add_ToUserPath_plain_status [OF wild_free_CargoBin])
  show "\<not> Get_Command ext ''rustup'' s \<and> web_request ext ''https://win.rustup.rs/x86_64'' (mach s)
        \<and> native ext (temp_dir s @ bsl @ ''rustup-init.exe'')
             [''-y'', ''--default-toolchain'', ''stable'', ''--default-host'', ''x86_64-pc-windows-gnu'']
             (location s) (env_path s) (put_file (temp_dir s @ bsl @ ''rustup-init.exe'') (mach s))
             = None \<longrightarrow>
         fst (install_rust ext s) = Throw
         \<and> events_since s (snd (install_rust ext s))
           = [EvDownload ''https://win.rustup.rs/x86_64'' (temp_dir s @ bsl @ ''rustup-init.exe''),
              EvRun (temp_dir s @ bsl @ ''rustup-init.exe'')
                [''-y'', ''--default-toolchain'', ''stable'', ''--default-host'', ''x86_64-pc-windows-gnu'']]
         \<and> Test_Path (temp_dir s @ bsl @ ''rustup-init.exe'') (snd (install_rust ext s))"
    by (auto simp: install_rust_run Let_def Test_Path_def put_file_def)
qed

text \<open>
  C7, worked examples on the sample machine, where neither tool is found. With an empty
  temporary directory the MinGW step downloads the archive, extracts it and removes it,
  in that order, and goes on; with the archive already there it extracts and removes it
  without a download. When the extraction fails the step stops with the error and the
  archive stays. When the deletion is refused the step goes on and the archive stays.
  The Rust step downloads the installer, runs it and removes it; when the installer
  cannot be started the step stops and the installer stays.
\<close>

theorem download_cache_and_cleanup_witness:
  "\<not> Get_Command sample_externals ''dlltool'' sample_session
   \<and> \<not> Test_Path (MinGWBin @ bsl @ ''dlltool.exe'') sample_session
   \<and> \<not> Test_Path (temp_dir sample_session @ bsl @ WinLibsZip) sample_session
   \<and> web_request sample_externals WinLibsUrl (mach sample_session)
   \<and> events_since sample_session (snd (install_mingw sample_externals sample_session))
       = [EvDownload WinLibsUrl (temp_dir sample_session @ bsl @ WinLibsZip),
          EvExpand (temp_dir sample_session @ bsl @ WinLibsZip) (''C:'' @ bsl),
          EvRemove (temp_dir sample_session @ bsl @ WinLibsZip)]
   \<and> \<not> Test_Path (temp_dir sample_session @ bsl @ WinLibsZip)
         (snd (install_mingw sample_externals sample_session))
   \<and> fst (install_mingw sample_externals sample_session) = Continue
   \<and> Test_Path (''C:'' @ bsl @ ''Temp'' @ bsl @ WinLibsZip)
        (sample_session\<lparr>mach := put_file (''C:'' @ bsl @ ''Temp'' @ bsl @ WinLibsZip) sample_machine\<rparr>)
   \<and> events_since
        (sample_session\<lparr>mach := put_file (''C:'' @ bsl @ ''Temp'' @ bsl @ WinLibsZip) sample_machine\<rparr>)
        (snd (install_mingw sample_externals
           (sample_session\<lparr>mach := put_file (''C:'' @ bsl @ ''Temp'' @ bsl @ WinLibsZip) sample_machine\<rparr>)))
       = [EvExpand (''C:'' @ bsl @ ''Temp'' @ bsl @ WinLibsZip) (''C:'' @ bsl),
          EvRemove (''C:'' @ bsl @ ''Temp'' @ bsl @ WinLibsZip)]
   \<and> \<not> Test_Path (''C:'' @ bsl @ ''Temp'' @ bsl @ WinLibsZip)
        (snd (install_mingw sample_externals
           (sample_session\<lparr>mach := put_file (''C:'' @ bsl @ ''Temp'' @ bsl @ WinLibsZip) sample_machine\<rparr>)))
   \<and> fst (install_mingw (sample_externals\<lparr>expand_archive := (\<lambda>archive dest m. None)\<rparr>) sample_session)
       = Throw
   \<and> events_since sample_session
        (snd (install_mingw (sample_externals\<lparr>expand_archive := (\<lambda>archive dest m. None)\<rparr>) sample_session))
       = [EvDownload WinLibsUrl (temp_dir sample_session @ bsl @ WinLibsZip),
          EvExpand (temp_dir sample_session @ bsl @ WinLibsZip) (''C:'' @ bsl)]
   \<and> Test_Path (temp_dir sample_session @ bsl @ WinLibsZip)
        (snd (install_mingw (sample_externals\<lparr>expand_archive := (\<lambda>archive dest m. None)\<rparr>) sample_session))
   \<and> fst (install_mingw (sample_externals\<lparr>remove_item := (\<lambda>p m. False)\<rparr>) sample_session) = Continue
   \<and> events_since sample_session
        (snd (install_mingw (sample_externals\<lparr>remove_item := (\<lambda>p m. False)\<rparr>) sample_session))
       = [EvDownload WinLibsUrl (temp_dir sample_session @ bsl @ WinLibsZip),
          EvExpand (temp_dir sample_session @ bsl @ WinLibsZip) (''C:'' @ bsl),
          EvRemove (temp_dir sample_session @ bsl @ WinLibsZip)]
   \<and> Test_Path (temp_dir sample_session @ bsl @ WinLibsZip)
        (snd (install_mingw (sample_externals\<lparr>remove_item := (\<lambda>p m. False)\<rparr>) sample_session))
   \<and> \<not> Get_Command sample_externals ''rustup'' sample_session
   \<and> web_request sample_externals ''https://win.rustup.rs/x86_64'' (mach sample_session)
   \<and> wild_free (userprofile sample_session)
   \<and> events_since sample_session (snd (install_rust sample_externals sample_session))
       = [EvDownload ''https://win.rustup.rs/x86_64'' (temp_dir sample_session @ bsl @ ''rustup-init.exe''),
          EvRun (temp_dir sample_session @ bsl @ ''rustup-init.exe'')
            [''-y'', ''--default-toolchain'', ''stable'', ''--default-host'', ''x86_64-pc-windows-gnu''],
          EvRemove (temp_dir sample_session @ bsl @ ''rustup-init.exe'')]
   \<and> \<not> Test_Path (temp_dir sample_session @ bsl @ ''rustup-init.exe'')
         (snd (install_rust sample_externals sample_session))
   \<and> fst (install_rust sample_externals sample_session) = Continue
   \<and> fst (install_rust (sample_externals\<lparr>native := (\<lambda>cmd args cwd path m. None)\<rparr>) sample_session)
       = Throw
   \<and> events_since sample_session
        (snd (install_rust (sample_externals\<lparr>native := (\<lambda>cmd args cwd path m. None)\<rparr>) sample_session))
       = [EvDownload ''https://win.rustup.rs/x86_64'' (temp_dir sample_session @ bsl @ ''rustup-init.exe''),
          EvRun (temp_dir sample_session @ bsl @ ''rustup-init.exe'')
            [''-y'', ''--default-toolchain'', ''stable'', ''--default-host'', ''x86_64-pc-windows-gnu'']]
   \<and> Test_Path (temp_dir sample_session @ bsl @ ''rustup-init.exe'')
        (snd (install_rust (sample_externals\<lparr>native := (\<lambda>cmd args cwd path m. None)\<rparr>) sample_session))"
proof -
  let ?zip = "temp_dir sample_session @ bsl @ WinLibsZip"
  let ?ri = "temp_dir sample_session @ bsl @ ''rustup-init.exe''"
  let ?cached = "sample_session\<lparr>mach := put_file (''C:'' @ bsl @ ''Temp'' @ bsl @ WinLibsZip) sample_machine\<rparr>"
  let ?noexp = "sample_externals\<lparr>expand_archive := (\<lambda>archive dest m. None)\<rparr>"
  let ?norem = "sample_externals\<lparr>remove_item := (\<lambda>p m. False)\<rparr>"
  let ?nostart = "sample_externals\<lparr>native := (\<lambda>cmd args cwd path m. None)\<rparr>"
  have g: "\<And>name s. \<not> Get_Command sample_externals name s"
          "\<And>name s. \<not> Get_Command ?noexp name s"
          "\<And>name s. \<not> Get_Command ?norem name s"
          "\<And>name s. \<not> Get_Command ?nostart name s"
    by (simp_all add: Get_Command_def sample_externals_def)
  have n: "\<And>p. \<not> Test_Path p sample_session"
    by (simp add: Test_Path_def sample_session_def sample_machine_def)
  have nc: "\<not> Test_Path (MinGWBin @ bsl @ ''dlltool.exe'') ?cached"
    by (simp add: Test_Path_def sample_session_def sample_machine_def put_file_def
          MinGWBin_def WinLibsZip_def)
  have t: "temp_dir ?cached = ''C:'' @ bsl @ ''Temp''" "temp_dir sample_session = ''C:'' @ bsl @ ''Temp''"
    by (simp_all add: sample_session_def)
  have z: "Test_Path (''C:'' @ bsl @ ''Temp'' @ bsl @ WinLibsZip) ?cached"
    by (simp add: Test_Path_def put_file_def)
  have w: "\<And>u m. web_request sample_externals u m" "\<And>u m. web_request ?noexp u m"
          "\<And>u m. web_request ?norem u m" "\<And>u m. web_request ?nostart u m"
    by (simp_all add: sample_externals_def)
  have e: "\<And>v m. set_environment sample_externals v m" "\<And>v m. set_environment ?norem v m"
    by (simp_all add: sample_externals_def)
  have wf: "wild_free (userprofile sample_session)"
    by code_simp
  have x1: "expand_archive sample_externals ?zip (''C:'' @ bsl)
              (if Test_Path ?zip sample_session then mach sample_session
               else put_file ?zip (mach sample_session)) = Some (put_file ?zip (mach sample_session))"
    using n by (simp add: sample_externals_def)
  have x2: "expand_archive sample_externals (temp_dir ?cached @ bsl @ WinLibsZip) (''C:'' @ bsl)
              (if Test_Path (temp_dir ?cached @ bsl @ WinLibsZip) ?cached then mach ?cached
               else put_file (temp_dir ?cached @ bsl @ WinLibsZip) (mach ?cached)) = Some (mach ?cached)"
    using z by (simp add: sample_externals_def sample_session_def)
  have x3: "expand_archive ?noexp ?zip (''C:'' @ bsl)
              (if Test_Path ?zip sample_session then mach sample_session
               else put_file ?zip (mach sample_session)) = None"
    by simp
  have x4: "expand_archive ?norem ?zip (''C:'' @ bsl)
              (if Test_Path ?zip sample_session then mach sample_session
               else put_file ?zip (mach sample_session)) = Some (put_file ?zip (mach sample_session))"
    using n by (simp add: sample_externals_def)
  have x5: "native sample_externals ?ri
              [''-y'', ''--default-toolchain'', ''stable'', ''--default-host'', ''x86_64-pc-windows-gnu'']
              (location sample_session) (env_path sample_session) (put_file ?ri (mach sample_session))
            = Some (0, [], put_file ?ri (mach sample_session))"
    by (simp add: sample_externals_def)
  have x6: "native ?nostart ?ri
              [''-y'', ''--default-toolchain'', ''stable'', ''--default-host'', ''x86_64-pc-windows-gnu'']
              (location sample_session) (env_path sample_session) (put_file ?ri (mach sample_session))
            = None"
    by simp
  have f: "\<And>p m. files (put_file p m) p" "\<And>p m. remove_item sample_externals p m"
          "\<And>p m. \<not> remove_item ?norem p m"
    by (simp_all add: put_file_def sample_externals_def)
  have 1: "events_since sample_session (snd (install_mingw sample_externals sample_session))
             = [EvDownload WinLibsUrl ?zip, EvExpand ?zip (''C:'' @ bsl), EvRemove ?zip]
           \<and> \<not> Test_Path ?zip (snd (install_mingw sample_externals sample_session))
           \<and> fst (install_mingw sample_externals sample_session) = Continue"
  proof -
    have p: "\<not> Get_Command sample_externals ''dlltool'' sample_session
        \<and> \<not> Test_Path (MinGWBin @ bsl @ ''dlltool.exe'') sample_session
        \<and> (Test_Path ?zip sample_session \<or> web_request sample_externals WinLibsUrl (mach sample_session))
        \<and> expand_archive sample_externals ?zip (''C:'' @ bsl)
             (if Test_Path ?zip sample_session then mach sample_session
              else put_file ?zip (mach sample_session)) = Some (put_file ?zip (mach sample_session))"
      using g(1) n w(1) x1 by blast
    show ?thesis
      using download_cache_and_cleanup [where ext = sample_externals and s = sample_session,
              THEN conjunct2, THEN conjunct2, THEN conjunct2, THEN conjunct2, THEN conjunct1, THEN mp, OF p] n e(1) f(1,2)
      by simp
  qed
  have 2: "events_since ?cached (snd (install_mingw sample_externals ?cached))
             = [EvExpand (''C:'' @ bsl @ ''Temp'' @ bsl @ WinLibsZip) (''C:'' @ bsl),
                EvRemove (''C:'' @ bsl @ ''Temp'' @ bsl @ WinLibsZip)]
           \<and> \<not> Test_Path (''C:'' @ bsl @ ''Temp'' @ bsl @ WinLibsZip)
                 (snd (install_mingw sample_externals ?cached))"
  proof -
    have z': "Test_Path (temp_dir ?cached @ bsl @ WinLibsZip) ?cached"
      using z by (simp add: sample_session_def)
    have p: "\<not> Get_Command sample_externals ''dlltool'' ?cached
        \<and> \<not> Test_Path (MinGWBin @ bsl @ ''dlltool.exe'') ?cached
        \<and> (Test_Path (temp_dir ?cached @ bsl @ WinLibsZip) ?cached
             \<or> web_request sample_externals WinLibsUrl (mach ?cached))
        \<and> expand_archive sample_externals (temp_dir ?cached @ bsl @ WinLibsZip) (''C:'' @ bsl)
             (if Test_Path (temp_dir ?cached @ bsl @ WinLibsZip) ?cached then mach ?cached
              else put_file (temp_dir ?cached @ bsl @ WinLibsZip) (mach ?cached)) = Some (mach ?cached)"
      using g(1) nc z' x2 by blast
    show ?thesis
      using download_cache_and_cleanup [where ext = sample_externals and s = ?cached,
              THEN conjunct2, THEN conjunct2, THEN conjunct2, THEN conjunct2, THEN conjunct1, THEN mp, OF p] z f(1,2)
      by (simp add: t put_file_def)
  qed
  have 3: "fst (install_mingw ?noexp sample_session) = Throw
           \<and> events_since sample_session (snd (install_mingw ?noexp sample_session))
             = [EvDownload WinLibsUrl ?zip, EvExpand ?zip (''C:'' @ bsl)]
           \<and> Test_Path ?zip (snd (install_mingw ?noexp sample_session))"
  proof -
    have p: "\<not> Get_Command ?noexp ''dlltool'' sample_session
        \<and> \<not> Test_Path (MinGWBin @ bsl @ ''dlltool.exe'') sample_session
        \<and> (Test_Path ?zip sample_session \<or> web_request ?noexp WinLibsUrl (mach sample_session))
        \<and> expand_archive ?noexp ?zip (''C:'' @ bsl)
             (if Test_Path ?zip sample_session then mach sample_session
              else put_file ?zip (mach sample_session)) = None"
      using g(2) n w(2) x3 by blast
    show ?thesis
      using download_cache_and_cleanup [where ext = ?noexp and s = sample_session,
              THEN conjunct2, THEN conjunct2, THEN conjunct2, THEN conjunct2, THEN conjunct2, THEN conjunct1, THEN mp, OF p] n
      by simp
  qed
  have 4: "fst (install_mingw ?norem sample_session) = Continue
           \<and> events_since sample_session (snd (install_mingw ?norem sample_session))
             = [EvDownload WinLibsUrl ?zip, EvExpand ?zip (''C:'' @ bsl), EvRemove ?zip]
           \<and> Test_Path ?zip (snd (install_mingw ?norem sample_session))"
  proof -
    have p: "\<not> Get_Command ?norem ''dlltool'' sample_session
        \<and> \<not> Test_Path (MinGWBin @ bsl @ ''dlltool.exe'') sample_session
        \<and> (Test_Path ?zip sample_session \<or> web_request ?norem WinLibsUrl (mach sample_session))
        \<and> expand_archive ?norem ?zip (''C:'' @ bsl)
             (if Test_Path ?zip sample_session then mach sample_session
              else put_file ?zip (mach sample_session)) = Some (put_file ?zip (mach sample_session))"
      using g(3) n w(3) x4 by blast
    show ?thesis
      using download_cache_and_cleanup [where ext = ?norem and s = sample_session,
              THEN conjunct2, THEN conjunct2, THEN conjunct2, THEN conjunct2, THEN conjunct1, THEN mp, OF p] n e(2) f(1,3)
      by simp
  qed
  have 5: "events_since sample_session (snd (install_rust sample_externals sample_session))
             = [EvDownload ''https://win.rustup.rs/x86_64'' ?ri,
                EvRun ?ri [''-y'', ''--default-toolchain'', ''stable'', ''--default-host'', ''x86_64-pc-windows-gnu''],
                EvRemove ?ri]
           \<and> \<not> Test_Path ?ri (snd (install_rust sample_externals sample_session))
           \<and> fst (install_rust sample_externals sample_session) = Continue"
  proof -
    have p: "\<not> Get_Command sample_externals ''rustup'' sample_session
        \<and> web_request sample_externals ''https://win.rustup.rs/x86_64'' (mach sample_session)
        \<and> native sample_externals ?ri
             [''-y'', ''--default-toolchain'', ''stable'', ''--default-host'', ''x86_64-pc-windows-gnu'']
             (location sample_session) (env_path sample_session) (put_file ?ri (mach sample_session))
            = Some (0, [], put_file ?ri (mach sample_session))"
      using g(1) w(1) x5 by blast
    show ?thesis
      using download_cache_and_cleanup [where ext = sample_externals and s = sample_session,
              THEN conjunct2, THEN conjunct2, THEN conjunct2, THEN conjunct2, THEN conjunct2, THEN conjunct2, THEN conjunct1, THEN mp, OF p] wf e(1) f(1,2)
      by simp
  qed
  have 6: "fst (install_rust ?nostart sample_session) = Throw
           \<and> events_since sample_session (snd (install_rust ?nostart sample_session))
             = [EvDownload ''https://win.rustup.rs/x86_64'' ?ri,
                EvRun ?ri [''-y'', ''--default-toolchain'', ''stable'', ''--default-host'', ''x86_64-pc-windows-gnu'']]
           \<and> Test_Path ?ri (snd (install_rust ?nostart sample_session))"
  proof -
    have p: "\<not> Get_Command ?nostart ''rustup'' sample_session
        \<and> web_request ?nostart ''https://win.rustup.rs/x86_64'' (mach sample_session)
        \<and> native ?nostart ?ri
             [''-y'', ''--default-toolchain'', ''stable'', ''--default-host'', ''x86_64-pc-windows-gnu'']
             (location sample_session) (env_path sample_session) (put_file ?ri (mach sample_session))
            = None"
      using g(4) w(4) x6 by blast
    show ?thesis
      using download_cache_and_cleanup [where ext = ?nostart and s = sample_session,
              THEN conjunct2, THEN conjunct2, THEN conjunct2, THEN conjunct2, THEN conjunct2, THEN conjunct2, THEN conjunct2]
            p
      by blast
  qed
  show ?thesis
    using g(1) n z w(1) wf 1 2 3 4 5 6 by blast
qed

text \<open>
  C7 as written, which has both steps reuse a cached file: with \<^verbatim>\<open>rustup-init.exe\<close> already
  in the temporary directory and \<^verbatim>\<open>rustup\<close> not found, the Rust step downloads the installer
  again.
\<close>

theorem download_cache_counterexample:
  "\<not> Get_Command sample_externals ''rustup''
        (sample_session\<lparr>mach := sample_machine\<lparr>files := (\<lambda>p. p = ''C:'' @ bsl @ ''Temp'' @ bsl @ ''rustup-init.exe'')\<rparr>\<rparr>)
   \<and> Test_Path (''C:'' @ bsl @ ''Temp'' @ bsl @ ''rustup-init.exe'')
        (sample_session\<lparr>mach := sample_machine\<lparr>files := (\<lambda>p. p = ''C:'' @ bsl @ ''Temp'' @ bsl @ ''rustup-init.exe'')\<rparr>\<rparr>)
   \<and> downloads (events_since
        (sample_session\<lparr>mach := sample_machine\<lparr>files := (\<lambda>p. p = ''C:'' @ bsl @ ''Temp'' @ bsl @ ''rustup-init.exe'')\<rparr>\<rparr>)
        (snd (install_rust sample_externals
           (sample_session\<lparr>mach := sample_machine\<lparr>files := (\<lambda>p. p = ''C:'' @ bsl @ ''Temp'' @ bsl @ ''rustup-init.exe'')\<rparr>\<rparr>))))
       = [(''https://win.rustup.rs/x86_64'', ''C:'' @ bsl @ ''Temp'' @ bsl @ ''rustup-init.exe'')]"
  by code_simp

end
